theory Spec2Isabelle
  imports Main "HOL-Library.Word" "HOL-Library.Char_ord" "HOL-Library.List_Lexorder"
begin

section \<open>resgate: configuration resolution and process lifecycle (main.go)\<close>

text \<open>
  The development embeds \<^verbatim>\<open>main.go\<close>: \<^verbatim>\<open>Config.SetDefault\<close>, \<^verbatim>\<open>Config.Init\<close>,
  \<^verbatim>\<open>usage\<close>, \<^verbatim>\<open>printAndDie\<close> and \<^verbatim>\<open>main\<close>. The Go standard library that
  \<^verbatim>\<open>Init\<close> calls (\<^verbatim>\<open>flag\<close>, \<^verbatim>\<open>strconv\<close>, \<^verbatim>\<open>encoding/json\<close>, \<^verbatim>\<open>io/ioutil\<close>)
  is embedded as far as \<^verbatim>\<open>Init\<close> uses it, following the Go release the Dockerfile
  builds with (1.12).
\<close>

subsection \<open>strconv\<close>

text \<open>\<^verbatim>\<open>strconv.ParseBool\<close>: the twelve accepted spellings; anything else is an error.\<close>

definition ParseBool :: "string \<Rightarrow> bool option" where
  "ParseBool str =
     (if str \<in> set [''1'', ''t'', ''T'', ''true'', ''TRUE'', ''True''] then Some True
      else if str \<in> set [''0'', ''f'', ''F'', ''false'', ''FALSE'', ''False''] then Some False
      else None)"

text \<open>The digit value of a byte in \<^verbatim>\<open>strconv.ParseUint\<close>: \<^verbatim>\<open>0-9\<close>, \<^verbatim>\<open>a-z\<close>, \<^verbatim>\<open>A-Z\<close>.\<close>

definition digit_val :: "char \<Rightarrow> nat option" where
  "digit_val ch =
     (let n = (of_char ch :: nat) in
      if 48 \<le> n \<and> n \<le> 57 then Some (n - 48)
      else if 97 \<le> n \<and> n \<le> 122 then Some (n - 97 + 10)
      else if 65 \<le> n \<and> n \<le> 90 then Some (n - 65 + 10)
      else None)"

text \<open>
  The digit loop of \<^verbatim>\<open>ParseUint\<close> at bit size 64. Go stops with a range error when
  \<^verbatim>\<open>n >= cutoff\<close> (that is, \<^verbatim>\<open>n * base\<close> exceeds \<^verbatim>\<open>maxUint64\<close>) or when adding the digit
  wraps; over \<open>nat\<close> both are the one test \<open>2 ^ 64 \<le> n * base + d\<close>.
\<close>

fun parse_digits :: "nat \<Rightarrow> string \<Rightarrow> nat \<Rightarrow> nat option" where
  "parse_digits base [] n = Some n"
| "parse_digits base (ch # s) n =
     (case digit_val ch of
        None \<Rightarrow> None
      | Some d \<Rightarrow>
          if base \<le> d then None
          else if 2 ^ 64 \<le> n * base + d then None
          else parse_digits base s (n * base + d))"

text \<open>
  \<^verbatim>\<open>strconv.ParseUint(s, 0, 64)\<close>: base 0 takes the base from the prefix,
  \<^verbatim>\<open>0x\<close>/\<^verbatim>\<open>0X\<close> for 16, a leading \<^verbatim>\<open>0\<close> for 8, and 10 otherwise.
\<close>

definition ParseUint :: "string \<Rightarrow> nat option" where
  "ParseUint s =
     (if length s = 0 then None
      else if s ! 0 = CHR ''0'' \<and> 1 < length s \<and> (s ! 1 = CHR ''x'' \<or> s ! 1 = CHR ''X'') then
        (if length s < 3 then None else parse_digits 16 (drop 2 s) 0)
      else if s ! 0 = CHR ''0'' then parse_digits 8 (drop 1 s) 0
      else parse_digits 10 s 0)"

text \<open>
  \<^verbatim>\<open>strconv.ParseInt(s, 0, 64)\<close>: an optional sign, then \<^verbatim>\<open>ParseUint\<close>, then the range
  check against \<^verbatim>\<open>cutoff = 1 << 63\<close>. A range error of \<^verbatim>\<open>ParseUint\<close> stays an error.
\<close>

definition ParseInt :: "string \<Rightarrow> int option" where
  "ParseInt s0 =
     (if length s0 = 0 then None
      else
        let neg = (s0 ! 0 = CHR ''-'');
            s = (if s0 ! 0 = CHR ''+'' \<or> s0 ! 0 = CHR ''-'' then drop 1 s0 else s0)
        in case ParseUint s of
             None \<Rightarrow> None
           | Some un \<Rightarrow>
               if \<not> neg \<and> 2 ^ 63 \<le> un then None
               else if neg \<and> 2 ^ 63 < un then None
               else Some (if neg then - int un else int un))"

subsection \<open>The configuration\<close>

text \<open>
  Modelled from the spec: the struct \<^verbatim>\<open>server.Config\<close> (package \<^verbatim>\<open>server\<close> is not part
  of the sources at hand). These are the fields \<^verbatim>\<open>main.go\<close> reads and writes, with the
  types the spec's data model gives them: \<^verbatim>\<open>Port\<close> is a 16-bit unsigned integer
  (\<^verbatim>\<open>c.Port = uint16(port)\<close>), \<^verbatim>\<open>HeaderAuth\<close> a \<^verbatim>\<open>*string\<close> (\<open>None\<close> is \<^verbatim>\<open>nil\<close>).
\<close>

record server_Config =
  Port :: "16 word"
  WSPath :: string
  APIPath :: string
  HeaderAuth :: "string option"
  TLS :: bool
  TLSCert :: string
  TLSKey :: string

text \<open>
  \<^verbatim>\<open>type Config struct\<close> of \<^verbatim>\<open>main.go\<close>, with \<^verbatim>\<open>server.Config\<close> embedded. Go's
  \<^verbatim>\<open>int\<close> is 64 bits wide here; every value that reaches \<^verbatim>\<open>RequestTimeout\<close> has passed
  a range check (\<open>ParseInt\<close>, \<open>Unmarshal\<close>), so it is an \<open>int\<close> without wrap-around.
\<close>

record Config = server_Config +
  NatsURL :: string
  RequestTimeout :: int
  Debug :: bool

text \<open>\<^verbatim>\<open>var cfg Config\<close>: Go's zero value.\<close>

definition zero_Config :: Config where
  "zero_Config =
     \<lparr>Port = 0, WSPath = [], APIPath = [], HeaderAuth = None, TLS = False,
      TLSCert = [], TLSKey = [], NatsURL = [], RequestTimeout = 0, Debug = False\<rparr>"

text \<open>
  Modelled from the spec: \<^verbatim>\<open>server.Config.SetDefault\<close>, which \<^verbatim>\<open>Config.SetDefault\<close>
  calls and which is not part of the sources at hand. The spec has it fill every field
  still at its zero value with the built-in default, \<^verbatim>\<open>HeaderAuth\<close> apart, whose absence
  is meaningful; the defaults are those the usage text of \<^verbatim>\<open>main.go\<close> documents
  (port 8080, WebSocket path \<^verbatim>\<open>/\<close>, API path \<^verbatim>\<open>/api/\<close>; none for the TLS files).
\<close>

definition server_SetDefault :: "Config \<Rightarrow> Config" where
  "server_SetDefault c =
     (let c = (if Port c = 0 then c\<lparr>Port := 8080\<rparr> else c);
          c = (if WSPath c = [] then c\<lparr>WSPath := ''/''\<rparr> else c);
          c = (if APIPath c = [] then c\<lparr>APIPath := ''/api/''\<rparr> else c)
      in c)"

text \<open>\<^verbatim>\<open>func (c *Config) SetDefault()\<close>.\<close>

definition SetDefault :: "Config \<Rightarrow> Config" where
  "SetDefault c =
     (let c = (if NatsURL c = [] then c\<lparr>NatsURL := ''nats://127.0.0.1:4222''\<rparr> else c);
          c = (if RequestTimeout c = 0 then c\<lparr>RequestTimeout := 5\<rparr> else c)
      in server_SetDefault c)"

subsection \<open>The flag set\<close>

text \<open>
  The variables the flags of \<^verbatim>\<open>Init\<close> point into: its four locals and the fields of
  \<^verbatim>\<open>c\<close>, together with the flag set's \<^verbatim>\<open>actual\<close> map (the names of the flags that were
  set; a list without duplicates stands for the map's keys). \<^verbatim>\<open>port\<close> is a Go
  \<^verbatim>\<open>uint\<close>, below \<open>2 ^ 64\<close> by \<open>ParseUint\<close>.
\<close>

record env =
  showHelp :: bool
  configFile :: string
  port :: nat
  headauth :: string
  cfg :: Config
  actual :: "string list"

text \<open>
  A registered flag is its \<^verbatim>\<open>flag.Value\<close>: the kind of value it parses and the
  variable it writes, a pointer in Go and here the update it performs.
\<close>

datatype flag =
    BoolVar "bool \<Rightarrow> env \<Rightarrow> env"
  | StringVar "string \<Rightarrow> env \<Rightarrow> env"
  | UintVar "nat \<Rightarrow> env \<Rightarrow> env"
  | IntVar "int \<Rightarrow> env \<Rightarrow> env"

text \<open>\<^verbatim>\<open>fs.formal\<close> after the registrations of \<^verbatim>\<open>Init\<close> (lines 68 to 86).\<close>

definition formal :: "string \<Rightarrow> flag option" where
  "formal name =
     (if name = ''h'' \<or> name = ''help'' then Some (BoolVar (\<lambda>b e. e\<lparr>showHelp := b\<rparr>))
      else if name = ''c'' \<or> name = ''config'' then Some (StringVar (\<lambda>s e. e\<lparr>configFile := s\<rparr>))
      else if name = ''n'' \<or> name = ''nats'' then
        Some (StringVar (\<lambda>s e. e\<lparr>cfg := (cfg e)\<lparr>NatsURL := s\<rparr>\<rparr>))
      else if name = ''p'' \<or> name = ''port'' then Some (UintVar (\<lambda>n e. e\<lparr>port := n\<rparr>))
      else if name = ''w'' \<or> name = ''wspath'' then
        Some (StringVar (\<lambda>s e. e\<lparr>cfg := (cfg e)\<lparr>WSPath := s\<rparr>\<rparr>))
      else if name = ''a'' \<or> name = ''apipath'' then
        Some (StringVar (\<lambda>s e. e\<lparr>cfg := (cfg e)\<lparr>APIPath := s\<rparr>\<rparr>))
      else if name = ''u'' \<or> name = ''headauth'' then Some (StringVar (\<lambda>s e. e\<lparr>headauth := s\<rparr>))
      else if name = ''tls'' then Some (BoolVar (\<lambda>b e. e\<lparr>cfg := (cfg e)\<lparr>TLS := b\<rparr>\<rparr>))
      else if name = ''tlscert'' then Some (StringVar (\<lambda>s e. e\<lparr>cfg := (cfg e)\<lparr>TLSCert := s\<rparr>\<rparr>))
      else if name = ''tlskey'' then Some (StringVar (\<lambda>s e. e\<lparr>cfg := (cfg e)\<lparr>TLSKey := s\<rparr>\<rparr>))
      else if name = ''r'' \<or> name = ''reqtimeout'' then
        Some (IntVar (\<lambda>i e. e\<lparr>cfg := (cfg e)\<lparr>RequestTimeout := i\<rparr>\<rparr>))
      else None)"

text \<open>
  The state of the variables when \<^verbatim>\<open>fs.Parse\<close> is first called: every registration
  stores its default (\<^verbatim>\<open>false\<close>, \<^verbatim>\<open>""\<close>, \<^verbatim>\<open>0\<close>) through the pointer, and \<^verbatim>\<open>cfg\<close> was
  the zero value before.
\<close>

definition init_env :: env where
  "init_env =
     \<lparr>showHelp = False, configFile = [], port = 0, headauth = [], cfg = zero_Config,
      actual = []\<rparr>"

text \<open>\<^verbatim>\<open>IsBoolFlag\<close>: a boolean flag takes no value from the next argument.\<close>

fun IsBoolFlag :: "flag \<Rightarrow> bool" where
  "IsBoolFlag (BoolVar p) = True"
| "IsBoolFlag _ = False"

text \<open>\<^verbatim>\<open>flag.Value.Set\<close>: parse the text, write the variable; \<open>None\<close> is the error.\<close>

fun Set_flag :: "flag \<Rightarrow> string \<Rightarrow> env \<Rightarrow> env option" where
  "Set_flag (BoolVar p) v e = map_option (\<lambda>b. p b e) (ParseBool v)"
| "Set_flag (StringVar p) v e = Some (p v e)"
| "Set_flag (UintVar p) v e = map_option (\<lambda>n. p n e) (ParseUint v)"
| "Set_flag (IntVar p) v e = map_option (\<lambda>i. p i e) (ParseInt v)"

text \<open>
  The search for \<^verbatim>\<open>=\<close> in \<^verbatim>\<open>parseOne\<close>, which starts at index 1 (an equals sign cannot
  be first): the name before the first \<^verbatim>\<open>=\<close> and, when there is one, the value after it.
\<close>

fun cut_eq :: "string \<Rightarrow> (string \<times> string) option" where
  "cut_eq [] = None"
| "cut_eq (ch # s) =
     (if ch = CHR ''='' then Some ([], s)
      else map_option (\<lambda>(n, v). (ch # n, v)) (cut_eq s))"

definition split_name :: "string \<Rightarrow> string \<times> string option" where
  "split_name name =
     (case cut_eq (tl name) of
        None \<Rightarrow> (name, None)
      | Some (n, v) \<Rightarrow> (hd name # n, Some v))"

text \<open>
  The three results of \<^verbatim>\<open>parseOne\<close>: \<^verbatim>\<open>(true, nil)\<close> with the new state and the
  remaining arguments, \<^verbatim>\<open>(false, nil)\<close> at the end of the flags, and \<^verbatim>\<open>(false, err)\<close>.
  The arguments left over at the end are not kept: \<^verbatim>\<open>main.go\<close> never reads them.
\<close>

datatype parsed = Seen env "string list" | NoMoreFlags | Failed

text \<open>
  The value of a flag that is not boolean: the text after \<^verbatim>\<open>=\<close>, or else the next
  argument, which is consumed; \<open>None\<close> when there is neither (\<^verbatim>\<open>flag needs an argument\<close>).
\<close>

definition take_value :: "string option \<Rightarrow> string list \<Rightarrow> (string \<times> string list) option" where
  "take_value hasValue rest =
     (case hasValue of
        Some v \<Rightarrow> Some (v, rest)
      | None \<Rightarrow> (case rest of [] \<Rightarrow> None | v # rest' \<Rightarrow> Some (v, rest')))"

text \<open>
  The end of \<^verbatim>\<open>parseOne\<close>: \<^verbatim>\<open>Set\<close> the value, and on success record the name in
  \<^verbatim>\<open>f.actual\<close>.
\<close>

definition set_actual :: "string \<Rightarrow> flag \<Rightarrow> string \<Rightarrow> string list \<Rightarrow> env \<Rightarrow> parsed" where
  "set_actual name fl v rest e =
     (case Set_flag fl v e of
        None \<Rightarrow> Failed
      | Some e' \<Rightarrow> Seen (e'\<lparr>actual := List.insert name (actual e')\<rparr>) rest)"

text \<open>\<^verbatim>\<open>func (f *FlagSet) parseOne() (bool, error)\<close>.\<close>

definition parseOne :: "env \<Rightarrow> string list \<Rightarrow> parsed" where
  "parseOne e args =
     (case args of
        [] \<Rightarrow> NoMoreFlags
      | s # rest \<Rightarrow>
          if length s < 2 \<or> s ! 0 \<noteq> CHR ''-'' then NoMoreFlags
          else
            let numMinuses = (if s ! 1 = CHR ''-'' then 2 else 1 :: nat) in
            if numMinuses = 2 \<and> length s = 2 then NoMoreFlags
            else
              let name = drop numMinuses s in
              if length name = 0 \<or> name ! 0 = CHR ''-'' \<or> name ! 0 = CHR ''='' then Failed
              else
                let (name, hasValue) = split_name name in
                (case formal name of
                   None \<Rightarrow> Failed
                 | Some fl \<Rightarrow>
                     if IsBoolFlag fl then
                       set_actual name fl (case hasValue of Some v \<Rightarrow> v | None \<Rightarrow> ''true'') rest e
                     else
                       (case take_value hasValue rest of
                          None \<Rightarrow> Failed
                        | Some (v, rest') \<Rightarrow> set_actual name fl v rest' e)))"

lemma parseOne_shorter:
  "parseOne e args = Seen e' args' \<Longrightarrow> length args' < length args"
  by (auto simp: parseOne_def take_value_def set_actual_def Let_def
      split: list.splits if_splits prod.splits option.splits)

text \<open>
  \<^verbatim>\<open>func (f *FlagSet) Parse(arguments []string) error\<close> on a flag set made with
  \<^verbatim>\<open>flag.ExitOnError\<close>: the loop over \<^verbatim>\<open>parseOne\<close>. \<open>None\<close> is the process ending inside
  \<^verbatim>\<open>Parse\<close>: every error of \<^verbatim>\<open>parseOne\<close> goes through \<^verbatim>\<open>failf\<close>, which prints the error
  and calls \<^verbatim>\<open>fs.Usage\<close>, and \<^verbatim>\<open>main\<close> has set that to \<^verbatim>\<open>usage\<close>, which exits.
\<close>

function Parse :: "env \<Rightarrow> string list \<Rightarrow> env option" where
  "Parse e args =
     (case parseOne e args of
        Seen e' args' \<Rightarrow> Parse e' args'
      | NoMoreFlags \<Rightarrow> Some e
      | Failed \<Rightarrow> None)"
  by pat_completeness auto
termination
  by (relation "measure (\<lambda>(e, args). length args)") (auto dest: parseOne_shorter)

declare Parse.simps [simp del]

text \<open>
  \<^verbatim>\<open>func (f *FlagSet) Visit(fn func(*Flag))\<close>: \<^verbatim>\<open>fn\<close> is called for the flags that
  were set, in the lexicographical order of their names.
\<close>

definition Visit :: "(string \<Rightarrow> env \<Rightarrow> env) \<Rightarrow> env \<Rightarrow> env" where
  "Visit fn e = fold fn (sort (actual e)) e"

subsection \<open>The configuration file\<close>

text \<open>
  A file that decodes is modelled by what \<^verbatim>\<open>json.Unmarshal\<close> reads from it: every key of
  \<^verbatim>\<open>Config\<close> is absent (\<open>None\<close>; a \<^verbatim>\<open>null\<close> for a field that is not a pointer leaves the
  field as it is, too) or holds a value. The pointer field \<^verbatim>\<open>HeaderAuth\<close> tells an
  absent key (\<open>None\<close>) from \<^verbatim>\<open>null\<close> (\<open>Some None\<close>). Numbers are integer literals; the
  bytes, the indentation and the key names are not modelled.
\<close>

record json_Config =
  j_natsUrl :: "string option"
  j_requestTimeout :: "int option"
  j_debug :: "bool option"
  j_port :: "int option"
  j_wsPath :: "string option"
  j_apiPath :: "string option"
  j_headerAuth :: "string option option"
  j_tls :: "bool option"
  j_tlsCert :: "string option"
  j_tlsKey :: "string option"

text \<open>
  What \<^verbatim>\<open>ioutil.ReadFile\<close> finds at a path: no file (\<^verbatim>\<open>os.IsNotExist\<close>), a file that
  cannot be read, bytes that \<^verbatim>\<open>json.Unmarshal\<close> rejects outright (a syntax error, a value
  of the wrong JSON type), or a document.
\<close>

datatype disk_file = NotExist | Unreadable | Malformed | Document json_Config

type_synonym files = "string \<Rightarrow> disk_file"

text \<open>
  \<^verbatim>\<open>json.Unmarshal(fin, c)\<close> on a document: a number that overflows its field
  (\<^verbatim>\<open>uint16\<close> for the port, \<^verbatim>\<open>int\<close> for the timeout) is an \<^verbatim>\<open>UnmarshalTypeError\<close>; otherwise
  the keys present overwrite their fields and the other fields stay.
\<close>

definition Unmarshal :: "json_Config \<Rightarrow> Config \<Rightarrow> Config option" where
  "Unmarshal d c =
     (if (case j_port d of None \<Rightarrow> False | Some n \<Rightarrow> n < 0 \<or> 65535 < n) then None
      else if (case j_requestTimeout d of None \<Rightarrow> False | Some n \<Rightarrow> n < - (2 ^ 63) \<or> 2 ^ 63 \<le> n)
      then None
      else Some (c\<lparr>
        NatsURL := (case j_natsUrl d of None \<Rightarrow> NatsURL c | Some s \<Rightarrow> s),
        RequestTimeout := (case j_requestTimeout d of None \<Rightarrow> RequestTimeout c | Some n \<Rightarrow> n),
        Debug := (case j_debug d of None \<Rightarrow> Debug c | Some b \<Rightarrow> b),
        Port := (case j_port d of None \<Rightarrow> Port c | Some n \<Rightarrow> word_of_int n),
        WSPath := (case j_wsPath d of None \<Rightarrow> WSPath c | Some s \<Rightarrow> s),
        APIPath := (case j_apiPath d of None \<Rightarrow> APIPath c | Some s \<Rightarrow> s),
        HeaderAuth := (case j_headerAuth d of None \<Rightarrow> HeaderAuth c | Some h \<Rightarrow> h),
        TLS := (case j_tls d of None \<Rightarrow> TLS c | Some b \<Rightarrow> b),
        TLSCert := (case j_tlsCert d of None \<Rightarrow> TLSCert c | Some s \<Rightarrow> s),
        TLSKey := (case j_tlsKey d of None \<Rightarrow> TLSKey c | Some s \<Rightarrow> s)\<rparr>))"

text \<open>
  \<^verbatim>\<open>json.MarshalIndent(c, "", "\t")\<close>: every field is written, \<^verbatim>\<open>Debug\<close> only when it is
  true (\<^verbatim>\<open>omitempty\<close>), a \<^verbatim>\<open>nil\<close> \<^verbatim>\<open>HeaderAuth\<close> as \<^verbatim>\<open>null\<close>. Encoding a struct of strings,
  numbers and booleans cannot fail, so the branch \<^verbatim>\<open>error encoding config\<close> of \<^verbatim>\<open>Init\<close> is
  never taken and has no counterpart here.
\<close>

definition MarshalIndent :: "Config \<Rightarrow> json_Config" where
  "MarshalIndent c =
     \<lparr>j_natsUrl = Some (NatsURL c),
      j_requestTimeout = Some (RequestTimeout c),
      j_debug = (if Debug c then Some True else None),
      j_port = Some (uint (Port c)),
      j_wsPath = Some (WSPath c),
      j_apiPath = Some (APIPath c),
      j_headerAuth = Some (HeaderAuth c),
      j_tls = Some (TLS c),
      j_tlsCert = Some (TLSCert c),
      j_tlsKey = Some (TLSKey c)\<rparr>"

text \<open>
  \<^verbatim>\<open>ioutil.WriteFile(configFile, fout, 0664)\<close>. Whether the write goes through is the
  environment's choice (\<open>writable\<close>); \<^verbatim>\<open>Init\<close> drops the error it returns.
\<close>

definition WriteFile :: "string \<Rightarrow> json_Config \<Rightarrow> bool \<Rightarrow> files \<Rightarrow> files" where
  "WriteFile path d writable fs = (if writable then fs(path := Document d) else fs)"

subsection \<open>Config.Init\<close>

text \<open>
  The messages \<^verbatim>\<open>main.go\<close> can print, one constructor for each format string or error
  text. \<^verbatim>\<open>error parsing arguments\<close> has none: \<^verbatim>\<open>fs.Parse\<close> with \<^verbatim>\<open>flag.ExitOnError\<close> never
  returns an error, so that call of \<^verbatim>\<open>printAndDie\<close> (line 89) is never reached.
\<close>

datatype message =
    InvalidPort nat
  | ErrorLoadingConfigFile
  | ErrorParsingConfigFile
  | ServiceError string

text \<open>
  How a call of \<^verbatim>\<open>Init\<close> ends: the process exits inside \<^verbatim>\<open>fs.Parse\<close>, \<^verbatim>\<open>printAndDie\<close> is
  called, \<^verbatim>\<open>usage\<close> is called, or \<^verbatim>\<open>Init\<close> returns an error or \<^verbatim>\<open>nil\<close> (with the
  configuration that \<^verbatim>\<open>c\<close> then holds).
\<close>

datatype init_result =
    ExitInParse
  | PrintAndDie message bool
  | Usage
  | ReturnErr message
  | ReturnNil Config

text \<open>The function literal that \<^verbatim>\<open>Init\<close> passes to \<^verbatim>\<open>fs.Visit\<close> (lines 130 to 141).\<close>

definition visit_headauth :: "string \<Rightarrow> env \<Rightarrow> env" where
  "visit_headauth name e =
     (if name = ''u'' \<or> name = ''headauth'' then
        (if headauth e = [] then e\<lparr>cfg := (cfg e)\<lparr>HeaderAuth := None\<rparr>\<rparr>
         else e\<lparr>cfg := (cfg e)\<lparr>HeaderAuth := Some (headauth e)\<rparr>\<rparr>)
      else e)"

text \<open>Lines 126 to 146 of \<^verbatim>\<open>Init\<close>: the port, the visit, the defaults.\<close>

definition finish :: "env \<Rightarrow> Config" where
  "finish e =
     (let e = (if 0 < port e then e\<lparr>cfg := (cfg e)\<lparr>Port := word_of_nat (port e)\<rparr>\<rparr> else e);
          e = Visit visit_headauth e
      in SetDefault (cfg e))"

text \<open>
  Lines 100 to 124 of \<^verbatim>\<open>Init\<close>: the configuration file. The result is how \<^verbatim>\<open>Init\<close>
  ends there (\<open>Inl\<close>) or the variables it goes on with (\<open>Inr\<close>), and the files after it.
\<close>

definition load_file :: "string list \<Rightarrow> env \<Rightarrow> files \<Rightarrow> bool \<Rightarrow> (init_result + env) \<times> files" where
  "load_file args e fs writable =
     (if configFile e \<noteq> [] then
        (case fs (configFile e) of
           Unreadable \<Rightarrow> (Inl (ReturnErr ErrorLoadingConfigFile), fs)
         | NotExist \<Rightarrow>
             (let e = e\<lparr>cfg := SetDefault (cfg e)\<rparr>;
                  fout = MarshalIndent (cfg e)
              in (Inr e, WriteFile (configFile e) fout writable fs))
         | Malformed \<Rightarrow> (Inl (ReturnErr ErrorParsingConfigFile), fs)
         | Document fin \<Rightarrow>
             (case Unmarshal fin (cfg e) of
                None \<Rightarrow> (Inl (ReturnErr ErrorParsingConfigFile), fs)
              | Some c \<Rightarrow>
                  (case Parse (e\<lparr>cfg := c\<rparr>) args of
                     None \<Rightarrow> (Inl ExitInParse, fs)
                   | Some e' \<Rightarrow> (Inr e', fs))))
      else (Inr e, fs))"

text \<open>
  \<^verbatim>\<open>func (c *Config) Init(fs *flag.FlagSet, args []string) error\<close>, called once, on
  the zero \<^verbatim>\<open>Config\<close> and a fresh flag set.
\<close>

definition Init :: "string list \<Rightarrow> files \<Rightarrow> bool \<Rightarrow> init_result \<times> files" where
  "Init args fs writable =
     (case Parse init_env args of
        None \<Rightarrow> (ExitInParse, fs)
      | Some e \<Rightarrow>
          if 2 ^ 16 \<le> port e then (PrintAndDie (InvalidPort (port e)) True, fs)
          else if showHelp e then (Usage, fs)
          else
            (case load_file args e fs writable of
               (Inl r, fs') \<Rightarrow> (r, fs')
             | (Inr e', fs') \<Rightarrow> (ReturnNil (finish e'), fs')))"

subsection \<open>main\<close>

text \<open>
  What the process does that can be seen from outside: what it prints and where, the
  calls of the service's \<^verbatim>\<open>Start\<close> and \<^verbatim>\<open>Stop\<close>, and the time (in nanoseconds) it spends
  blocked in the last \<^verbatim>\<open>select\<close>.
\<close>

datatype stream = Stdout | Stderr

datatype printed = UsageStr | FlagError | Msg message

datatype action = Print stream printed | ServStart | ServStop | Blocked nat

text \<open>
  How the process ends: \<^verbatim>\<open>os.Exit\<close> with a status (a return from \<^verbatim>\<open>main\<close> is status 0),
  a panic, or never, blocked in the first \<^verbatim>\<open>select\<close>.
\<close>

datatype ending = Exit nat | Panic string | Waiting

type_synonym run = "action list \<times> ending"

text \<open>\<^verbatim>\<open>func usage()\<close>.\<close>

definition usage :: run where
  "usage = ([Print Stdout UsageStr], Exit 0)"

text \<open>\<^verbatim>\<open>func printAndDie(msg string, showUsage bool)\<close>.\<close>

definition printAndDie :: "message \<Rightarrow> bool \<Rightarrow> run" where
  "printAndDie msg showUsage =
     ([Print Stderr (Msg msg)] @ (if showUsage then [Print Stderr UsageStr] else []), Exit 1)"

text \<open>\<^verbatim>\<open>var stopTimeout = 10 * time.Second\<close>, in nanoseconds.\<close>

definition stopTimeout :: nat where
  "stopTimeout = 10 * 1000000000"

text \<open>
  What the first \<^verbatim>\<open>select\<close> of \<^verbatim>\<open>main\<close> receives: an OS signal on \<^verbatim>\<open>stop\<close>, or a value on
  \<^verbatim>\<open>serv.StopChannel()\<close>, an error or \<^verbatim>\<open>nil\<close>.
\<close>

datatype trigger = OsSignal | StopChannel "string option"

text \<open>
  Lines 200 to 211 of \<^verbatim>\<open>main\<close>: \<^verbatim>\<open>serv.Stop\<close> runs in a goroutine that closes \<^verbatim>\<open>done\<close>
  when it returns, after \<open>stop_time\<close> nanoseconds or never (\<open>None\<close>); the \<^verbatim>\<open>select\<close> takes
  whichever of \<^verbatim>\<open>done\<close> and the timer is ready first, and when both are ready at once
  the runtime picks one (\<open>pick_done\<close>).
\<close>

definition await_stop :: "nat option \<Rightarrow> bool \<Rightarrow> run" where
  "await_stop stop_time pick_done =
     (case stop_time of
        None \<Rightarrow> ([ServStop, Blocked stopTimeout], Panic ''Shutdown timed out'')
      | Some d \<Rightarrow>
          if d < stopTimeout \<or> (d = stopTimeout \<and> pick_done) then ([ServStop, Blocked d], Exit 0)
          else ([ServStop, Blocked stopTimeout], Panic ''Shutdown timed out''))"

text \<open>
  Lines 186 to 211 of \<^verbatim>\<open>main\<close>, the service running: the first \<^verbatim>\<open>select\<close> (blocked for
  ever when nothing is received, \<open>None\<close>), then the stop.
\<close>

definition serve :: "trigger option \<Rightarrow> nat option \<Rightarrow> bool \<Rightarrow> run" where
  "serve received stop_time pick_done =
     (case received of
        None \<Rightarrow> ([], Waiting)
      | Some OsSignal \<Rightarrow> await_stop stop_time pick_done
      | Some (StopChannel (Some err)) \<Rightarrow> printAndDie (ServiceError err) False
      | Some (StopChannel None) \<Rightarrow> await_stop stop_time pick_done)"

text \<open>
  The service, an external collaborator, as \<^verbatim>\<open>main\<close> sees it: what \<^verbatim>\<open>serv.Start\<close>
  returns, what the first \<^verbatim>\<open>select\<close> receives, and how long \<^verbatim>\<open>serv.Stop\<close> takes.
\<close>

record world =
  start_error :: "string option"
  received :: "trigger option"
  stop_time :: "nat option"
  pick_done :: bool

text \<open>A run that starts with one more action.\<close>

definition preceded :: "action \<Rightarrow> run \<Rightarrow> run" where
  "preceded a r = (a # fst r, snd r)"

text \<open>
  \<^verbatim>\<open>func main()\<close>. An error of the flag parser is printed by \<^verbatim>\<open>failf\<close>, which then
  calls \<^verbatim>\<open>fs.Usage\<close>, that is \<^verbatim>\<open>usage\<close>.
\<close>

definition main :: "string list \<Rightarrow> files \<Rightarrow> bool \<Rightarrow> world \<Rightarrow> run" where
  "main args fs writable w =
     (case fst (Init args fs writable) of
        ExitInParse \<Rightarrow> ([Print Stderr FlagError, Print Stdout UsageStr], Exit 0)
      | PrintAndDie msg showUsage \<Rightarrow> printAndDie msg showUsage
      | Usage \<Rightarrow> usage
      | ReturnErr err \<Rightarrow> printAndDie err False
      | ReturnNil c \<Rightarrow>
          (case start_error w of
             Some err \<Rightarrow> preceded ServStart (printAndDie (ServiceError err) False)
           | None \<Rightarrow> preceded ServStart (serve (received w) (stop_time w) (pick_done w))))"

subsection \<open>Derived notions\<close>

text \<open>
  Parsing the same arguments a second time re-applies the command line: a field some
  flag of the first parse has set (its name is in \<open>act\<close>) takes the command line's
  value again, every other field keeps what it holds.
\<close>

definition reapplied :: "string list \<Rightarrow> Config \<Rightarrow> Config \<Rightarrow> Config" where
  "reapplied act cli c =
     c\<lparr>NatsURL := (if ''n'' \<in> set act \<or> ''nats'' \<in> set act then NatsURL cli else NatsURL c),
       WSPath := (if ''w'' \<in> set act \<or> ''wspath'' \<in> set act then WSPath cli else WSPath c),
       APIPath := (if ''a'' \<in> set act \<or> ''apipath'' \<in> set act then APIPath cli else APIPath c),
       TLS := (if ''tls'' \<in> set act then TLS cli else TLS c),
       TLSCert := (if ''tlscert'' \<in> set act then TLSCert cli else TLSCert c),
       TLSKey := (if ''tlskey'' \<in> set act then TLSKey cli else TLSKey c),
       RequestTimeout :=
         (if ''r'' \<in> set act \<or> ''reqtimeout'' \<in> set act then RequestTimeout cli
          else RequestTimeout c)\<rparr>"

text \<open>An empty directory.\<close>

definition no_files :: files where
  "no_files = (\<lambda>path. NotExist)"

text \<open>
  A service that starts and then receives an OS signal, with a \<^verbatim>\<open>Stop\<close> that never
  returns; and one that reports the error \<^verbatim>\<open>fatal\<close> on its stop channel.
\<close>

definition signalled_world :: world where
  "signalled_world =
     \<lparr>start_error = None, received = Some OsSignal, stop_time = None, pick_done = False\<rparr>"


text \<open>A document with no key at all, \<^verbatim>\<open>{}\<close>.\<close>

definition empty_doc :: json_Config where
  "empty_doc =
     \<lparr>j_natsUrl = None, j_requestTimeout = None, j_debug = None, j_port = None,
      j_wsPath = None, j_apiPath = None, j_headerAuth = None, j_tls = None,
      j_tlsCert = None, j_tlsKey = None\<rparr>"

text \<open>
  The built-in defaults, as the usage text documents them; three directories with one
  configuration file each; and the value a configuration file gives \<^verbatim>\<open>headerAuth\<close>
  (absent when no path is given, when there is no document at the path, and when the
  document has no such key or \<^verbatim>\<open>null\<close> for it).
\<close>

definition default_Config :: Config where
  "default_Config =
     \<lparr>Port = 8080, WSPath = ''/'', APIPath = ''/api/'', HeaderAuth = None, TLS = False,
      TLSCert = [], TLSKey = [], NatsURL = ''nats://127.0.0.1:4222'', RequestTimeout = 5,
      Debug = False\<rparr>"

definition port_9000_files :: files where
  "port_9000_files = no_files(''config.json'' := Document (empty_doc\<lparr>j_port := Some 9000\<rparr>))"

definition nats_files :: files where
  "nats_files = no_files(''config.json'' := Document (empty_doc\<lparr>j_natsUrl := Some ''nats://10.0.0.1:4222''\<rparr>))"

definition headauth_files :: files where
  "headauth_files =
     no_files(''config.json'' := Document (empty_doc\<lparr>j_headerAuth := Some (Some ''auth.method'')\<rparr>))"

definition file_HeaderAuth :: "files \<Rightarrow> string \<Rightarrow> string option" where
  "file_HeaderAuth fs path =
     (if path = [] then None
      else case fs path of
             Document d \<Rightarrow> (case j_headerAuth d of None \<Rightarrow> None | Some h \<Rightarrow> h)
           | _ \<Rightarrow> None)"

text \<open>
  A command line that sets every flag of the configuration, what the parser makes of it,
  a configuration file that defines every key otherwise, and the configuration that
  resolves from the two.
\<close>

definition every_flag :: "string list" where
  "every_flag =
     [''--config'', ''config.json'', ''--nats'', ''nats://10.1.1.1:4222'', ''--port'', ''9090'',
      ''-w'', ''/ws'', ''-a'', ''/v1/'', ''-r'', ''7'', ''--tls'', ''--tlscert'', ''cert.pem'',
      ''--tlskey'', ''key.pem'', ''-u'', ''auth.cli'']"

definition every_key :: json_Config where
  "every_key =
     \<lparr>j_natsUrl = Some ''nats://10.0.0.1:4222'', j_requestTimeout = Some 30, j_debug = Some True,
      j_port = Some 9000, j_wsPath = Some ''/socket'', j_apiPath = Some ''/rest/'',
      j_headerAuth = Some (Some ''auth.file''), j_tls = Some False,
      j_tlsCert = Some ''file.pem'', j_tlsKey = Some ''file.key''\<rparr>"

definition every_key_files :: files where
  "every_key_files = no_files(''config.json'' := Document every_key)"

definition every_flag_env :: env where
  "every_flag_env =
     \<lparr>showHelp = False, configFile = ''config.json'', port = 9090, headauth = ''auth.cli'',
      cfg = \<lparr>Port = 0, WSPath = ''/ws'', APIPath = ''/v1/'', HeaderAuth = None, TLS = True,
        TLSCert = ''cert.pem'', TLSKey = ''key.pem'', NatsURL = ''nats://10.1.1.1:4222'',
        RequestTimeout = 7, Debug = False\<rparr>,
      actual = [''u'', ''tlskey'', ''tlscert'', ''tls'', ''r'', ''a'', ''w'', ''port'', ''nats'',
        ''config'']\<rparr>"

definition every_flag_Config :: Config where
  "every_flag_Config =
     \<lparr>Port = 9090, WSPath = ''/ws'', APIPath = ''/v1/'', HeaderAuth = Some ''auth.cli'',
      TLS = True, TLSCert = ''cert.pem'', TLSKey = ''key.pem'',
      NatsURL = ''nats://10.1.1.1:4222'', RequestTimeout = 7, Debug = True\<rparr>"

text \<open>
  The bootstrap file that command line leaves when there is no file at the path, and a
  directory whose configuration file gives a port that no \<^verbatim>\<open>uint16\<close> holds.
\<close>

definition every_flag_doc :: json_Config where
  "every_flag_doc =
     \<lparr>j_natsUrl = Some ''nats://10.1.1.1:4222'', j_requestTimeout = Some 7, j_debug = None,
      j_port = Some 8080, j_wsPath = Some ''/ws'', j_apiPath = Some ''/v1/'',
      j_headerAuth = Some None, j_tls = Some True, j_tlsCert = Some ''cert.pem'',
      j_tlsKey = Some ''key.pem''\<rparr>"

definition port_70000_files :: files where
  "port_70000_files = no_files(''config.json'' := Document (empty_doc\<lparr>j_port := Some 70000\<rparr>))"

text \<open>A service that is told to stop and does so within five seconds.\<close>

definition prompt_world :: world where
  "prompt_world =
     \<lparr>start_error = None, received = Some (StopChannel None), stop_time = Some 5000000000,
      pick_done = False\<rparr>"

section \<open>Properties\<close>

subsection \<open>The flag parser\<close>

lemma Set_flag_fails_alike: "Set_flag fl v e = None \<Longrightarrow> Set_flag fl v t = None"
  by (cases fl) auto

lemma formal_cases:
  assumes "formal n = Some fl"
  obtains "n \<in> {''h'', ''help''}" "fl = BoolVar (\<lambda>b e. e\<lparr>showHelp := b\<rparr>)"
  | "n \<in> {''c'', ''config''}" "fl = StringVar (\<lambda>s e. e\<lparr>configFile := s\<rparr>)"
  | "n \<in> {''n'', ''nats''}" "fl = StringVar (\<lambda>s e. e\<lparr>cfg := (cfg e)\<lparr>NatsURL := s\<rparr>\<rparr>)"
  | "n \<in> {''p'', ''port''}" "fl = UintVar (\<lambda>n e. e\<lparr>port := n\<rparr>)"
  | "n \<in> {''w'', ''wspath''}" "fl = StringVar (\<lambda>s e. e\<lparr>cfg := (cfg e)\<lparr>WSPath := s\<rparr>\<rparr>)"
  | "n \<in> {''a'', ''apipath''}" "fl = StringVar (\<lambda>s e. e\<lparr>cfg := (cfg e)\<lparr>APIPath := s\<rparr>\<rparr>)"
  | "n \<in> {''u'', ''headauth''}" "fl = StringVar (\<lambda>s e. e\<lparr>headauth := s\<rparr>)"
  | "n \<in> {''tls''}" "fl = BoolVar (\<lambda>b e. e\<lparr>cfg := (cfg e)\<lparr>TLS := b\<rparr>\<rparr>)"
  | "n \<in> {''tlscert''}" "fl = StringVar (\<lambda>s e. e\<lparr>cfg := (cfg e)\<lparr>TLSCert := s\<rparr>\<rparr>)"
  | "n \<in> {''tlskey''}" "fl = StringVar (\<lambda>s e. e\<lparr>cfg := (cfg e)\<lparr>TLSKey := s\<rparr>\<rparr>)"
  | "n \<in> {''r'', ''reqtimeout''}" "fl = IntVar (\<lambda>i e. e\<lparr>cfg := (cfg e)\<lparr>RequestTimeout := i\<rparr>\<rparr>)"
  using assms unfolding formal_def by (simp split: if_splits)

lemma Set_flag_actual:
  "formal n = Some fl \<Longrightarrow> Set_flag fl v e = Some e1 \<Longrightarrow> actual e1 = actual e"
  by (erule formal_cases) auto

lemma parseOne_shape:
  obtains (no_more) "\<And>t. parseOne t args = NoMoreFlags"
  | (failed) "\<And>t. parseOne t args = Failed"
  | (flag) n fl v rest where "formal n = Some fl"
      and "\<And>t. parseOne t args = set_actual n fl v rest t"
proof (cases args)
  case Nil
  then have "parseOne t args = NoMoreFlags" for t
    by (simp add: parseOne_def)
  then show thesis by (rule no_more)
next
  case (Cons s rest)
  let ?k = "if s ! 1 = CHR ''-'' then 2 else 1 :: nat"
  let ?name = "drop ?k s"
  obtain name hasValue where sn: "split_name ?name = (name, hasValue)"
    by (cases "split_name ?name") auto
  show thesis
  proof (cases "length s < 2 \<or> s ! 0 \<noteq> CHR ''-'' \<or> (?k = 2 \<and> length s = 2)")
    case True
    with Cons have "parseOne t args = NoMoreFlags" for t
      by (auto simp: parseOne_def Let_def)
    then show thesis by (rule no_more)
  next
    case dash: False
    show thesis
    proof (cases "length ?name = 0 \<or> ?name ! 0 = CHR ''-'' \<or> ?name ! 0 = CHR ''=''")
      case True
      with Cons dash have "parseOne t args = Failed" for t
        by (auto simp: parseOne_def Let_def)
      then show thesis by (rule failed)
    next
      case named: False
      show thesis
      proof (cases "formal name")
        case None
        with Cons dash named sn have "parseOne t args = Failed" for t
          by (auto simp: parseOne_def Let_def)
        then show thesis by (rule failed)
      next
        case (Some fl)
        show thesis
        proof (cases "IsBoolFlag fl")
          case True
          with Cons dash named sn Some
          have "parseOne t args =
              set_actual name fl (case hasValue of Some v \<Rightarrow> v | None \<Rightarrow> ''true'') rest t" for t
            by (auto simp: parseOne_def Let_def)
          with Some show thesis by (rule flag)
        next
          case not_bool: False
          show thesis
          proof (cases "take_value hasValue rest")
            case None
            with Cons dash named sn Some not_bool have "parseOne t args = Failed" for t
              by (auto simp: parseOne_def Let_def)
            then show thesis by (rule failed)
          next
            case (Some vr)
            obtain v rest' where "vr = (v, rest')" by (cases vr)
            with Cons dash named sn \<open>formal name = Some fl\<close> not_bool Some
            have "parseOne t args = set_actual name fl v rest' t" for t
              by (auto simp: parseOne_def Let_def)
            with \<open>formal name = Some fl\<close> show thesis by (rule flag)
          qed
        qed
      qed
    qed
  qed
qed

lemma Parse_no_more: "(\<And>t. parseOne t args = NoMoreFlags) \<Longrightarrow> Parse e args = Some e"
  by (subst Parse.simps) simp

lemma Parse_failed: "(\<And>t. parseOne t args = Failed) \<Longrightarrow> Parse e args = None"
  by (subst Parse.simps) simp

lemma Parse_flag:
  assumes "\<And>t. parseOne t args = set_actual n fl v rest t"
  shows "Parse e args =
    (case Set_flag fl v e of
       None \<Rightarrow> None
     | Some e0 \<Rightarrow> Parse (e0\<lparr>actual := List.insert n (actual e0)\<rparr>) rest)"
  by (subst Parse.simps) (simp add: assms set_actual_def split: option.splits)

lemma Parse_flag_Some:
  assumes "\<And>t. parseOne t args = set_actual n fl v rest t" and "Parse e args = Some e'"
  obtains e0 where "Set_flag fl v e = Some e0"
    and "parseOne e args = Seen (e0\<lparr>actual := List.insert n (actual e0)\<rparr>) rest"
    and "Parse (e0\<lparr>actual := List.insert n (actual e0)\<rparr>) rest = Some e'"
  using assms(2) unfolding Parse_flag [OF assms(1)]
  by (cases "Set_flag fl v e") (auto simp: assms(1) set_actual_def)

lemma Parse_succeeds_alike:
  "Parse s args = Some s' \<Longrightarrow> \<exists>t'. Parse t args = Some t'"
proof (induction s args arbitrary: t rule: Parse.induct)
  case (1 s args)
  show ?case
  proof (cases args rule: parseOne_shape)
    case no_more
    then show ?thesis by (simp add: Parse_no_more)
  next
    case failed
    with "1.prems" show ?thesis by (simp add: Parse_failed)
  next
    case (flag n fl v rest)
    from flag(2) "1.prems" obtain s0 where s0: "Set_flag fl v s = Some s0"
      and step: "parseOne s args = Seen (s0\<lparr>actual := List.insert n (actual s0)\<rparr>) rest"
      and rest: "Parse (s0\<lparr>actual := List.insert n (actual s0)\<rparr>) rest = Some s'"
      by (rule Parse_flag_Some)
    from s0 obtain t0 where t0: "Set_flag fl v t = Some t0"
      using Set_flag_fails_alike [of fl v t s] by (cases "Set_flag fl v t") auto
    from "1.IH" [OF step rest] obtain t' where
      "Parse (t0\<lparr>actual := List.insert n (actual t0)\<rparr>) rest = Some t'" by blast
    with t0 show ?thesis by (simp add: Parse_flag [OF flag(2)])
  qed
qed

lemma Parse_None_alike: "Parse s args = None \<Longrightarrow> Parse t args = None"
  using Parse_succeeds_alike [of t args _ s] by (cases "Parse t args") auto

lemma Parse_actual_mono:
  "Parse s args = Some s' \<Longrightarrow> set (actual s) \<subseteq> set (actual s')"
proof (induction s args rule: Parse.induct)
  case (1 s args)
  show ?case
  proof (cases args rule: parseOne_shape)
    case no_more
    with "1.prems" show ?thesis by (simp add: Parse_no_more)
  next
    case failed
    with "1.prems" show ?thesis by (simp add: Parse_failed)
  next
    case (flag n fl v rest)
    from flag(2) "1.prems" obtain s0 where s0: "Set_flag fl v s = Some s0"
      and step: "parseOne s args = Seen (s0\<lparr>actual := List.insert n (actual s0)\<rparr>) rest"
      and rest: "Parse (s0\<lparr>actual := List.insert n (actual s0)\<rparr>) rest = Some s'"
      by (rule Parse_flag_Some)
    from "1.IH" [OF step rest] Set_flag_actual [OF flag(1) s0] show ?thesis by auto
  qed
qed

lemma Parse_two_runs:
  assumes same: "\<And>n fl v s t s1 t1. \<lbrakk>formal n = Some fl; n \<in> N; Set_flag fl v s = Some s1;
        Set_flag fl v t = Some t1\<rbrakk> \<Longrightarrow> g s1 = g t1"
    and frame: "\<And>n fl v s s1. \<lbrakk>formal n = Some fl; n \<notin> N; Set_flag fl v s = Some s1\<rbrakk> \<Longrightarrow> g s1 = g s"
    and act: "\<And>s a. g (s\<lparr>actual := a\<rparr>) = g s"
  shows "Parse s args = Some s' \<Longrightarrow> Parse t args = Some t' \<Longrightarrow>
    ((\<exists>n\<in>N. n \<in> set (actual s')) \<and> g t' = g s') \<or>
    (g t' = g t \<and> g s' = g s \<and> (\<forall>n\<in>N. n \<in> set (actual s') \<longrightarrow> n \<in> set (actual s)))"
proof (induction s args arbitrary: t rule: Parse.induct)
  case (1 s args)
  show ?case
  proof (cases args rule: parseOne_shape)
    case no_more
    with "1.prems" show ?thesis by (simp add: Parse_no_more)
  next
    case failed
    with "1.prems" show ?thesis by (simp add: Parse_failed)
  next
    case (flag n fl v rest)
    from flag(2) "1.prems"(1) obtain s0 where s0: "Set_flag fl v s = Some s0"
      and step: "parseOne s args = Seen (s0\<lparr>actual := List.insert n (actual s0)\<rparr>) rest"
      and rest: "Parse (s0\<lparr>actual := List.insert n (actual s0)\<rparr>) rest = Some s'"
      by (rule Parse_flag_Some)
    from flag(2) "1.prems"(2) obtain t0 where t0: "Set_flag fl v t = Some t0"
      and rest': "Parse (t0\<lparr>actual := List.insert n (actual t0)\<rparr>) rest = Some t'"
      by (rule Parse_flag_Some)
    let ?s1 = "s0\<lparr>actual := List.insert n (actual s0)\<rparr>"
    let ?t1 = "t0\<lparr>actual := List.insert n (actual t0)\<rparr>"
    note IH = "1.IH" [OF step rest rest']
    have n_in: "n \<in> set (actual s')"
      using Parse_actual_mono [OF rest] by auto
    have act_s: "actual s0 = actual s"
      by (rule Set_flag_actual [OF flag(1) s0])
    show ?thesis
    proof (cases "n \<in> N")
      case True
      then have "g ?s1 = g ?t1"
        using same [OF flag(1) True s0 t0] by (simp add: act)
      with IH True n_in show ?thesis by auto
    next
      case False
      then have "g ?s1 = g s" and "g ?t1 = g t"
        using frame [OF flag(1) False s0] frame [OF flag(1) False t0] by (simp_all add: act)
      with IH False act_s show ?thesis by auto
    qed
  qed
qed

lemma Parse_field:
  assumes cli: "Parse init_env args = Some e" and again: "Parse t args = Some e'"
    and same: "\<And>n fl v s t s1 t1. \<lbrakk>formal n = Some fl; n \<in> N; Set_flag fl v s = Some s1;
        Set_flag fl v t = Some t1\<rbrakk> \<Longrightarrow> g s1 = g t1"
    and frame: "\<And>n fl v s s1. \<lbrakk>formal n = Some fl; n \<notin> N; Set_flag fl v s = Some s1\<rbrakk> \<Longrightarrow> g s1 = g s"
    and act: "\<And>s a. g (s\<lparr>actual := a\<rparr>) = g s"
  shows "g e' = (if \<exists>n\<in>N. n \<in> set (actual e) then g e else g t)"
proof -
  have "((\<exists>n\<in>N. n \<in> set (actual e)) \<and> g e' = g e) \<or>
    (g e' = g t \<and> g e = g init_env \<and> (\<forall>n\<in>N. n \<in> set (actual e) \<longrightarrow> n \<in> set (actual init_env)))"
  proof (rule Parse_two_runs [where N = N and g = g, OF _ _ _ cli again])
    fix n fl v s t s1 t1
    assume "formal n = Some fl" "n \<in> N" "Set_flag fl v s = Some s1" "Set_flag fl v t = Some t1"
    then show "g s1 = g t1" by (rule same)
  next
    fix n fl v s s1
    assume "formal n = Some fl" "n \<notin> N" "Set_flag fl v s = Some s1"
    then show "g s1 = g s" by (rule frame)
  next
    fix s a show "g (s\<lparr>actual := a\<rparr>) = g s" by (rule act)
  qed
  then show ?thesis by (auto simp: init_env_def)
qed

lemma Parse_cfg:
  assumes cli: "Parse init_env args = Some e" and again: "Parse t args = Some e'"
  shows "cfg e' = reapplied (actual e) (cfg e) (cfg t)"
proof -
  note field = Parse_field [OF cli again]
  have "NatsURL (cfg e') =
      (if \<exists>n\<in>{''n'', ''nats''}. n \<in> set (actual e) then NatsURL (cfg e) else NatsURL (cfg t))"
    by (rule field; ((erule formal_cases; auto) | simp))
  moreover have "WSPath (cfg e') =
      (if \<exists>n\<in>{''w'', ''wspath''}. n \<in> set (actual e) then WSPath (cfg e) else WSPath (cfg t))"
    by (rule field; ((erule formal_cases; auto) | simp))
  moreover have "APIPath (cfg e') =
      (if \<exists>n\<in>{''a'', ''apipath''}. n \<in> set (actual e) then APIPath (cfg e) else APIPath (cfg t))"
    by (rule field; ((erule formal_cases; auto) | simp))
  moreover have "TLS (cfg e') =
      (if \<exists>n\<in>{''tls''}. n \<in> set (actual e) then TLS (cfg e) else TLS (cfg t))"
    by (rule field; ((erule formal_cases; auto) | simp))
  moreover have "TLSCert (cfg e') =
      (if \<exists>n\<in>{''tlscert''}. n \<in> set (actual e) then TLSCert (cfg e) else TLSCert (cfg t))"
    by (rule field; ((erule formal_cases; auto) | simp))
  moreover have "TLSKey (cfg e') =
      (if \<exists>n\<in>{''tlskey''}. n \<in> set (actual e) then TLSKey (cfg e) else TLSKey (cfg t))"
    by (rule field; ((erule formal_cases; auto) | simp))
  moreover have "RequestTimeout (cfg e') =
      (if \<exists>n\<in>{''r'', ''reqtimeout''}. n \<in> set (actual e) then RequestTimeout (cfg e)
       else RequestTimeout (cfg t))"
    by (rule field; ((erule formal_cases; auto) | simp))
  moreover have "Port (cfg e') = (if \<exists>n\<in>{}. n \<in> set (actual e) then Port (cfg e) else Port (cfg t))"
    by (rule field; ((erule formal_cases; auto) | simp))
  moreover have "HeaderAuth (cfg e') =
      (if \<exists>n\<in>{}. n \<in> set (actual e) then HeaderAuth (cfg e) else HeaderAuth (cfg t))"
    by (rule field; ((erule formal_cases; auto) | simp))
  moreover have "Debug (cfg e') =
      (if \<exists>n\<in>{}. n \<in> set (actual e) then Debug (cfg e) else Debug (cfg t))"
    by (rule field; ((erule formal_cases; auto) | simp))
  ultimately show ?thesis
    by (intro Config.equality) (simp_all add: reapplied_def)
qed

lemma Parse_actual:
  "Parse s args = Some s' \<Longrightarrow> Parse t args = Some t' \<Longrightarrow>
     set (actual t') \<union> set (actual s) = set (actual s') \<union> set (actual t)"
proof (induction s args arbitrary: t rule: Parse.induct)
  case (1 s args)
  show ?case
  proof (cases args rule: parseOne_shape)
    case no_more
    with "1.prems" show ?thesis by (auto simp: Parse_no_more)
  next
    case failed
    with "1.prems" show ?thesis by (simp add: Parse_failed)
  next
    case (flag n fl v rest)
    from flag(2) "1.prems"(1) obtain s0 where s0: "Set_flag fl v s = Some s0"
      and step: "parseOne s args = Seen (s0\<lparr>actual := List.insert n (actual s0)\<rparr>) rest"
      and rest: "Parse (s0\<lparr>actual := List.insert n (actual s0)\<rparr>) rest = Some s'"
      by (rule Parse_flag_Some)
    from flag(2) "1.prems"(2) obtain t0 where t0: "Set_flag fl v t = Some t0"
      and rest': "Parse (t0\<lparr>actual := List.insert n (actual t0)\<rparr>) rest = Some t'"
      by (rule Parse_flag_Some)
    have "n \<in> set (actual s')" and "n \<in> set (actual t')"
      using Parse_actual_mono [OF rest] Parse_actual_mono [OF rest'] by auto
    moreover have "actual s0 = actual s" and "actual t0 = actual t"
      using Set_flag_actual [OF flag(1)] s0 t0 by auto
    ultimately show ?thesis
      using "1.IH" [OF step rest rest'] by auto
  qed
qed

lemma Parse_again:
  assumes cli: "Parse init_env args = Some e" and again: "Parse t args = Some e'"
  shows "showHelp e' =
      (if ''h'' \<in> set (actual e) \<or> ''help'' \<in> set (actual e) then showHelp e else showHelp t)"
    and "configFile e' =
      (if ''c'' \<in> set (actual e) \<or> ''config'' \<in> set (actual e) then configFile e
       else configFile t)"
    and "port e' = (if ''p'' \<in> set (actual e) \<or> ''port'' \<in> set (actual e) then port e else port t)"
    and "headauth e' =
      (if ''u'' \<in> set (actual e) \<or> ''headauth'' \<in> set (actual e) then headauth e
       else headauth t)"
    and "cfg e' = reapplied (actual e) (cfg e) (cfg t)"
    and "set (actual e') = set (actual t) \<union> set (actual e)"
proof -
  note field = Parse_field [OF cli again]
  have "showHelp e' = (if \<exists>n\<in>{''h'', ''help''}. n \<in> set (actual e) then showHelp e else showHelp t)"
    by (rule field; ((erule formal_cases; auto) | simp))
  then show "showHelp e' =
      (if ''h'' \<in> set (actual e) \<or> ''help'' \<in> set (actual e) then showHelp e else showHelp t)"
    by simp
  have "configFile e' =
      (if \<exists>n\<in>{''c'', ''config''}. n \<in> set (actual e) then configFile e else configFile t)"
    by (rule field; ((erule formal_cases; auto) | simp))
  then show "configFile e' =
      (if ''c'' \<in> set (actual e) \<or> ''config'' \<in> set (actual e) then configFile e
       else configFile t)"
    by simp
  have "port e' = (if \<exists>n\<in>{''p'', ''port''}. n \<in> set (actual e) then port e else port t)"
    by (rule field; ((erule formal_cases; auto) | simp))
  then show "port e' =
      (if ''p'' \<in> set (actual e) \<or> ''port'' \<in> set (actual e) then port e else port t)"
    by simp
  have "headauth e' =
      (if \<exists>n\<in>{''u'', ''headauth''}. n \<in> set (actual e) then headauth e else headauth t)"
    by (rule field; ((erule formal_cases; auto) | simp))
  then show "headauth e' =
      (if ''u'' \<in> set (actual e) \<or> ''headauth'' \<in> set (actual e) then headauth e
       else headauth t)"
    by simp
  show "cfg e' = reapplied (actual e) (cfg e) (cfg t)"
    by (rule Parse_cfg [OF cli again])
  show "set (actual e') = set (actual t) \<union> set (actual e)"
    using Parse_actual [OF cli again] by (auto simp: init_env_def)
qed

text \<open>The second \<^verbatim>\<open>fs.Parse(args)\<close> of \<^verbatim>\<open>Init\<close>, on the variables the first one left.\<close>

lemma Parse_second:
  assumes cli: "Parse init_env args = Some e"
  obtains a where "Parse (e\<lparr>cfg := c\<rparr>) args = Some (e\<lparr>cfg := reapplied (actual e) (cfg e) c, actual := a\<rparr>)"
    and "set a = set (actual e)"
proof -
  from Parse_succeeds_alike [OF cli] obtain e' where again: "Parse (e\<lparr>cfg := c\<rparr>) args = Some e'"
    by blast
  note Parse_again [OF cli again]
  then have "e' = e\<lparr>cfg := reapplied (actual e) (cfg e) c, actual := actual e'\<rparr>"
    and "set (actual e') = set (actual e)"
    by (auto intro!: env.equality)
  with again show thesis by (metis that)
qed

text \<open>Names already in \<^verbatim>\<open>actual\<close> change nothing else of what \<^verbatim>\<open>Parse\<close> does.\<close>

lemma Parse_more_actual:
  assumes cli: "Parse init_env args = Some e"
  obtains a' where "Parse (init_env\<lparr>actual := a\<rparr>) args = Some (e\<lparr>actual := a'\<rparr>)"
    and "set a' = set a \<union> set (actual e)"
proof -
  from Parse_succeeds_alike [OF cli] obtain e'
    where again: "Parse (init_env\<lparr>actual := a\<rparr>) args = Some e'"
    by blast
  note 1 = Parse_again [OF cli cli] and 2 = Parse_again [OF cli again]
  have "cfg e' = cfg e"
    using 1(5) 2(5) by simp
  moreover have "showHelp e' = showHelp e" "configFile e' = configFile e" "port e' = port e"
    "headauth e' = headauth e"
    using 1(1-4) 2(1-4) by (auto split: if_splits)
  ultimately have "e' = e\<lparr>actual := actual e'\<rparr>"
    by (auto intro!: env.equality)
  moreover have "set (actual e') = set a \<union> set (actual e)"
    using 2(6) by simp
  ultimately show thesis using again by (metis that)
qed

lemma Parse_HeaderAuth:
  assumes "Parse init_env args = Some e"
  shows "HeaderAuth (cfg e) = None"
proof -
  from Parse_again(5) [OF assms assms]
  have "HeaderAuth (cfg e) = HeaderAuth (reapplied (actual e) (cfg e) (cfg init_env))"
    by (rule arg_cong)
  then show ?thesis
    by (simp add: reapplied_def init_env_def zero_Config_def)
qed

lemma Parse_Port:
  assumes "Parse init_env args = Some e"
  shows "Port (cfg e) = 0"
proof -
  from Parse_again(5) [OF assms assms]
  have "Port (cfg e) = Port (reapplied (actual e) (cfg e) (cfg init_env))"
    by (rule arg_cong)
  then show ?thesis
    by (simp add: reapplied_def init_env_def zero_Config_def)
qed

lemma Parse_Debug:
  assumes "Parse init_env args = Some e"
  shows "Debug (cfg e) = False"
proof -
  from Parse_again(5) [OF assms assms]
  have "Debug (cfg e) = Debug (reapplied (actual e) (cfg e) (cfg init_env))"
    by (rule arg_cong)
  then show ?thesis
    by (simp add: reapplied_def init_env_def zero_Config_def)
qed

lemma fold_visit_headauth:
  "fold visit_headauth names e =
     (if ''u'' \<in> set names \<or> ''headauth'' \<in> set names then
        e\<lparr>cfg := (cfg e)\<lparr>HeaderAuth := (if headauth e = [] then None else Some (headauth e))\<rparr>\<rparr>
      else e)"
  by (induction names arbitrary: e) (auto simp: visit_headauth_def)

lemma Visit_headauth:
  "Visit visit_headauth e =
     (if ''u'' \<in> set (actual e) \<or> ''headauth'' \<in> set (actual e) then
        e\<lparr>cfg := (cfg e)\<lparr>HeaderAuth := (if headauth e = [] then None else Some (headauth e))\<rparr>\<rparr>
      else e)"
  by (simp add: Visit_def fold_visit_headauth)

subsection \<open>Defaults and the decoder\<close>

lemma SetDefault_fields:
  "NatsURL (SetDefault c) = (if NatsURL c = [] then ''nats://127.0.0.1:4222'' else NatsURL c)"
  "RequestTimeout (SetDefault c) = (if RequestTimeout c = 0 then 5 else RequestTimeout c)"
  "Port (SetDefault c) = (if Port c = 0 then 8080 else Port c)"
  "WSPath (SetDefault c) = (if WSPath c = [] then ''/'' else WSPath c)"
  "APIPath (SetDefault c) = (if APIPath c = [] then ''/api/'' else APIPath c)"
  "HeaderAuth (SetDefault c) = HeaderAuth c"
  "TLS (SetDefault c) = TLS c"
  "TLSCert (SetDefault c) = TLSCert c"
  "TLSKey (SetDefault c) = TLSKey c"
  "Debug (SetDefault c) = Debug c"
  by (simp_all add: SetDefault_def server_SetDefault_def Let_def)

lemma SetDefault_idem: "SetDefault (SetDefault c) = SetDefault c"
  by (rule Config.equality) (auto simp: SetDefault_fields)

lemma SetDefault_zero: "SetDefault zero_Config = default_Config"
  by (simp add: SetDefault_def server_SetDefault_def zero_Config_def default_Config_def)

lemma Unmarshal_fields:
  assumes "Unmarshal d c = Some c'"
  shows "NatsURL c' = (case j_natsUrl d of None \<Rightarrow> NatsURL c | Some s \<Rightarrow> s)"
    and "RequestTimeout c' = (case j_requestTimeout d of None \<Rightarrow> RequestTimeout c | Some n \<Rightarrow> n)"
    and "Debug c' = (case j_debug d of None \<Rightarrow> Debug c | Some b \<Rightarrow> b)"
    and "Port c' = (case j_port d of None \<Rightarrow> Port c | Some n \<Rightarrow> word_of_int n)"
    and "WSPath c' = (case j_wsPath d of None \<Rightarrow> WSPath c | Some s \<Rightarrow> s)"
    and "APIPath c' = (case j_apiPath d of None \<Rightarrow> APIPath c | Some s \<Rightarrow> s)"
    and "HeaderAuth c' = (case j_headerAuth d of None \<Rightarrow> HeaderAuth c | Some h \<Rightarrow> h)"
    and "TLS c' = (case j_tls d of None \<Rightarrow> TLS c | Some b \<Rightarrow> b)"
    and "TLSCert c' = (case j_tlsCert d of None \<Rightarrow> TLSCert c | Some s \<Rightarrow> s)"
    and "TLSKey c' = (case j_tlsKey d of None \<Rightarrow> TLSKey c | Some s \<Rightarrow> s)"
  using assms by (auto simp: Unmarshal_def split: if_splits)

lemma Unmarshal_port_range:
  assumes "Unmarshal d c = Some c'" and "j_port d = Some n"
  shows "0 \<le> n \<and> n \<le> 65535"
  using assms by (auto simp: Unmarshal_def split: if_splits)

lemma Unmarshal_port_error:
  "j_port d = Some n \<Longrightarrow> n < 0 \<or> 65535 < n \<Longrightarrow> Unmarshal d c = None"
  by (simp add: Unmarshal_def)

lemma port_word_eq_0: "0 \<le> n \<Longrightarrow> n \<le> 65535 \<Longrightarrow> (word_of_int n :: 16 word) = 0 \<longleftrightarrow> n = 0"
  by (simp add: word_of_int_eq_0_iff zdvd_not_zless zero_less_iff_neq_zero dvd_eq_mod_eq_0)

lemma Unmarshal_defaults: "Unmarshal (MarshalIndent default_Config) zero_Config = Some default_Config"
  by (simp add: Unmarshal_def MarshalIndent_def default_Config_def zero_Config_def)

lemma Port_in_range: "(p :: 16 word) \<noteq> 0 \<Longrightarrow> 1 \<le> unat p \<and> unat p \<le> 65535"
  using unsigned_less [of p, where ?'a = nat] by (simp add: unat_gt_0 Suc_le_eq)

lemma reapplied_port:
  "set a = insert ''port'' (set b) \<Longrightarrow> reapplied a cli c = reapplied b cli c"
  by (simp add: reapplied_def)

subsection \<open>The phases of Init\<close>

lemma finish_eq:
  "finish e =
     SetDefault ((cfg e)
       \<lparr>Port := (if 0 < port e then word_of_nat (port e) else Port (cfg e)),
        HeaderAuth :=
          (if ''u'' \<in> set (actual e) \<or> ''headauth'' \<in> set (actual e)
           then (if headauth e = [] then None else Some (headauth e))
           else HeaderAuth (cfg e))\<rparr>)"
  by (simp add: finish_def Let_def Visit_headauth)

lemma finish_port:
  "set a = insert ''port'' (set (actual e)) \<Longrightarrow> finish (e\<lparr>actual := a\<rparr>) = finish e"
  by (simp add: finish_eq)

lemma Init_parsed:
  assumes "Parse init_env args = Some e" and "port e < 2 ^ 16" and "\<not> showHelp e"
  shows "Init args fs writable =
     (case load_file args e fs writable of
        (Inl r, fs') \<Rightarrow> (r, fs')
      | (Inr e', fs') \<Rightarrow> (ReturnNil (finish e'), fs'))"
  using assms by (simp add: Init_def)

lemma Init_ReturnNil:
  assumes "Init args fs writable = (ReturnNil r, fs')"
  obtains e where "Parse init_env args = Some e" and "port e < 2 ^ 16" and "\<not> showHelp e"
    and "Init args fs writable =
     (case load_file args e fs writable of
        (Inl r, fs') \<Rightarrow> (r, fs')
      | (Inr e', fs') \<Rightarrow> (ReturnNil (finish e'), fs'))"
  using assms by (cases "Parse init_env args") (auto simp: Init_def split: if_splits)

lemma load_file_none:
  "configFile e = [] \<Longrightarrow> load_file args e fs writable = (Inr e, fs)"
  by (simp add: load_file_def)

lemma load_file_NotExist:
  "configFile e \<noteq> [] \<Longrightarrow> fs (configFile e) = NotExist \<Longrightarrow>
     load_file args e fs writable =
       (Inr (e\<lparr>cfg := SetDefault (cfg e)\<rparr>),
        WriteFile (configFile e) (MarshalIndent (SetDefault (cfg e))) writable fs)"
  by (simp add: load_file_def Let_def)

lemma load_file_Document:
  assumes "Parse init_env args = Some e" and "configFile e \<noteq> []"
    and "fs (configFile e) = Document d" and "Unmarshal d (cfg e) = Some c"
  obtains a where "set a = set (actual e)"
    and "load_file args e fs writable =
       (Inr (e\<lparr>cfg := reapplied (actual e) (cfg e) c, actual := a\<rparr>), fs)"
proof -
  from Parse_second [OF assms(1), of c] obtain a
    where "Parse (e\<lparr>cfg := c\<rparr>) args = Some (e\<lparr>cfg := reapplied (actual e) (cfg e) c, actual := a\<rparr>)"
      and "set a = set (actual e)" by blast
  with assms(2-4) show thesis
    by (intro that [of a]) (simp_all add: load_file_def)
qed

lemma load_file_errors:
  "configFile e \<noteq> [] \<Longrightarrow> fs (configFile e) = Unreadable \<Longrightarrow>
     load_file args e fs writable = (Inl (ReturnErr ErrorLoadingConfigFile), fs)"
  "configFile e \<noteq> [] \<Longrightarrow> fs (configFile e) = Malformed \<Longrightarrow>
     load_file args e fs writable = (Inl (ReturnErr ErrorParsingConfigFile), fs)"
  "configFile e \<noteq> [] \<Longrightarrow> fs (configFile e) = Document d \<Longrightarrow> Unmarshal d (cfg e) = None \<Longrightarrow>
     load_file args e fs writable = (Inl (ReturnErr ErrorParsingConfigFile), fs)"
  by (simp_all add: load_file_def)

lemma Init_result:
  assumes cli: "Parse init_env args = Some e"
    and ret: "Init args fs writable = (ReturnNil r, fs')"
  shows "port e < 2 ^ 16" and "\<not> showHelp e"
    and "configFile e = [] \<Longrightarrow> r = finish e"
    and "configFile e \<noteq> [] \<Longrightarrow> fs (configFile e) = NotExist \<Longrightarrow>
      r = finish (e\<lparr>cfg := SetDefault (cfg e)\<rparr>)"
    and "configFile e \<noteq> [] \<Longrightarrow> fs (configFile e) = Document d \<Longrightarrow>
      \<exists>c a. Unmarshal d (cfg e) = Some c \<and> set a = set (actual e) \<and>
        r = finish (e\<lparr>cfg := reapplied (actual e) (cfg e) c, actual := a\<rparr>)"
    and "configFile e \<noteq> [] \<Longrightarrow> fs (configFile e) \<noteq> Unreadable \<and> fs (configFile e) \<noteq> Malformed"
proof -
  from cli ret show 1: "port e < 2 ^ 16" and 2: "\<not> showHelp e"
    by (auto simp: Init_def split: if_splits)
  note init = Init_parsed [OF cli 1 2, of fs writable]
  show "r = finish e" if "configFile e = []"
    using ret that by (simp add: init load_file_none)
  show "r = finish (e\<lparr>cfg := SetDefault (cfg e)\<rparr>)"
    if "configFile e \<noteq> []" "fs (configFile e) = NotExist"
    using ret that by (simp add: init load_file_NotExist)
  show "\<exists>c a. Unmarshal d (cfg e) = Some c \<and> set a = set (actual e) \<and>
        r = finish (e\<lparr>cfg := reapplied (actual e) (cfg e) c, actual := a\<rparr>)"
    if doc: "configFile e \<noteq> []" "fs (configFile e) = Document d"
  proof (cases "Unmarshal d (cfg e)")
    case None
    with ret doc show ?thesis by (simp add: init load_file_errors)
  next
    case (Some c)
    from load_file_Document [where fs = fs and writable = writable, OF cli doc Some] obtain a
      where "set a = set (actual e)"
        and "load_file args e fs writable =
          (Inr (e\<lparr>cfg := reapplied (actual e) (cfg e) c, actual := a\<rparr>), fs)"
      by blast
    with ret Some show ?thesis by (auto simp: init)
  qed
  show "fs (configFile e) \<noteq> Unreadable \<and> fs (configFile e) \<noteq> Malformed" if "configFile e \<noteq> []"
    using ret that by (auto simp: init load_file_errors)
qed

lemma Init_ReturnNil_finish:
  assumes "Init args fs writable = (ReturnNil r, fs')"
  obtains e' where "r = finish e'"
proof -
  from assms obtain e where cli: "Parse init_env args = Some e"
    by (rule Init_ReturnNil)
  note res = Init_result(3-6) [OF cli assms]
  show thesis
  proof (cases "configFile e = []")
    case True
    with res(1) that show ?thesis by blast
  next
    case False
    show ?thesis
    proof (cases "fs (configFile e)")
      case NotExist
      with res(2) False that show ?thesis by blast
    next
      case (Document d)
      with res(3) False that show ?thesis by blast
    qed (use res(4) False in auto)
  qed
qed

lemma load_file_port_0:
  assumes cli: "Parse init_env args = Some e"
    and cli': "Parse init_env (''--port'' # ''0'' # args) = Some (e\<lparr>actual := a'\<rparr>)"
    and a': "set a' = insert ''port'' (set (actual e))"
  shows "map_prod (map_sum id finish) id (load_file (''--port'' # ''0'' # args) (e\<lparr>actual := a'\<rparr>) fs writable) =
    map_prod (map_sum id finish) id (load_file args e fs writable)"
proof (cases "configFile e = []")
  case True
  then show ?thesis by (simp add: load_file_none finish_port [OF a'])
next
  case False
  show ?thesis
  proof (cases "fs (configFile e)")
    case NotExist
    with False a' show ?thesis
      by (simp add: load_file_NotExist finish_eq)
  next
    case Unreadable
    with False show ?thesis by (simp add: load_file_errors)
  next
    case Malformed
    with False show ?thesis by (simp add: load_file_errors)
  next
    case (Document d)
    show ?thesis
    proof (cases "Unmarshal d (cfg e)")
      case None
      with False Document show ?thesis by (simp add: load_file_errors)
    next
      case (Some c)
      from load_file_Document [where fs = fs and writable = writable, OF cli False Document Some]
      obtain a where a: "set a = set (actual e)"
        and 1: "load_file args e fs writable =
          (Inr (e\<lparr>cfg := reapplied (actual e) (cfg e) c, actual := a\<rparr>), fs)"
        by blast
      from load_file_Document [where fs = fs and writable = writable and e = "e\<lparr>actual := a'\<rparr>",
          OF cli'] False Document Some
      obtain b where b: "set b = set a'"
        and 2: "load_file (''--port'' # ''0'' # args) (e\<lparr>actual := a'\<rparr>) fs writable =
          (Inr (e\<lparr>cfg := reapplied a' (cfg e) c, actual := b\<rparr>), fs)"
        by auto
      have "finish (e\<lparr>cfg := reapplied a' (cfg e) c, actual := b\<rparr>) =
          finish (e\<lparr>cfg := reapplied (actual e) (cfg e) c, actual := a\<rparr>)"
        using a b a' by (simp add: reapplied_port [OF a'] finish_eq)
      with 1 2 show ?thesis by simp
    qed
  qed
qed

lemma default_port:
  assumes cli: "Parse init_env args = Some e" and zero: "port e = 0"
    and ret: "Init args fs writable = (ReturnNil r, fs')"
    and none: "configFile e = [] \<or> fs (configFile e) = NotExist \<or>
      (\<exists>d. fs (configFile e) = Document d \<and> (j_port d = None \<or> j_port d = Some 0))"
  shows "Port r = 8080"
proof (cases "configFile e = []")
  case True
  with Init_result(3) [OF cli ret] zero Parse_Port [OF cli] show ?thesis
    by (simp add: finish_eq SetDefault_fields)
next
  case False
  note res = Init_result(4-5) [OF cli ret False]
  from none False consider "fs (configFile e) = NotExist"
    | d where "fs (configFile e) = Document d" "j_port d = None \<or> j_port d = Some 0"
    by blast
  then show ?thesis
  proof cases
    case 1
    with res(1) zero Parse_Port [OF cli] show ?thesis
      by (simp add: finish_eq SetDefault_fields)
  next
    case 2
    from res(2) [OF 2(1)] obtain c a where c: "Unmarshal d (cfg e) = Some c"
      and r: "r = finish (e\<lparr>cfg := reapplied (actual e) (cfg e) c, actual := a\<rparr>)"
      by blast
    from 2(2) Unmarshal_fields(4) [OF c] Parse_Port [OF cli] have "Port c = 0"
      by auto
    with zero show ?thesis
      unfolding r finish_eq by (simp add: SetDefault_fields reapplied_def)
  qed
qed

subsection \<open>Concrete command lines\<close>

lemmas parse_eval = Parse.simps parseOne_def split_name_def formal_def take_value_def
  set_actual_def init_env_def

lemmas init_eval = Init_def load_file_def finish_eq SetDefault_def server_SetDefault_def
  Unmarshal_def MarshalIndent_def WriteFile_def zero_Config_def empty_doc_def no_files_def
  default_Config_def init_env_def Let_def

lemma Parse_nil: "Parse e [] = Some e"
  by (simp add: Parse.simps parseOne_def)

lemma ParseUint_0: "ParseUint ''0'' = Some 0"
  by (simp add: ParseUint_def)

lemma ParseUint_9090: "ParseUint ''9090'' = Some 9090"
  by (simp add: ParseUint_def digit_val_def)

lemma ParseUint_70000: "ParseUint ''70000'' = Some 70000"
  by (simp add: ParseUint_def digit_val_def)

lemma ParseInt_minus_5: "ParseInt ''-5'' = Some (- 5)"
  by (simp add: ParseInt_def ParseUint_def digit_val_def)

lemma Parse_port_0:
  "Parse t (''--port'' # ''0'' # args) =
     Parse (t\<lparr>port := 0, actual := List.insert ''port'' (actual t)\<rparr>) args"
  by (subst Parse.simps)
    (simp add: parseOne_def split_name_def formal_def take_value_def set_actual_def ParseUint_0)

lemma Parse_port_70000:
  "Parse init_env [''--port'', ''70000''] = Some (init_env\<lparr>port := 70000, actual := [''port'']\<rparr>)"
  by (simp add: Parse.simps parseOne_def split_name_def formal_def take_value_def set_actual_def
      ParseUint_70000 init_env_def)

lemma Parse_config:
  "Parse e [''--config'', p] =
     Some (e\<lparr>configFile := p, actual := List.insert ''config'' (actual e)\<rparr>)"
  by (simp add: parse_eval)

lemma Parse_config_only:
  "Parse init_env [''--config'', p] = Some (init_env\<lparr>configFile := p, actual := [''config'']\<rparr>)"
  by (simp add: Parse_config init_env_def)

lemma Parse_config_port:
  "Parse init_env [''--config'', ''config.json'', ''--port'', ''9090''] =
     Some (init_env\<lparr>configFile := ''config.json'', port := 9090, actual := [''port'', ''config'']\<rparr>)"
  by (simp add: parse_eval ParseUint_9090)

lemma Parse_config_nats:
  "Parse init_env [''--config'', ''config.json'', ''--nats'', ''''] =
     Some (init_env\<lparr>configFile := ''config.json'', actual := [''nats'', ''config'']\<rparr>)"
  by (simp add: parse_eval zero_Config_def)

lemma Parse_config_headauth:
  "Parse init_env [''--config'', ''config.json'', ''--headauth'', ''''] =
     Some (init_env\<lparr>configFile := ''config.json'', actual := [''headauth'', ''config'']\<rparr>)"
  by (simp add: parse_eval)

lemma Parse_reqtimeout:
  "Parse init_env [''-r'', ''-5''] =
     Some (init_env\<lparr>cfg := zero_Config\<lparr>RequestTimeout := - 5\<rparr>, actual := [''r'']\<rparr>)"
  by (simp add: parse_eval ParseInt_minus_5)

lemma Init_no_arguments: "fst (Init [] no_files False) = ReturnNil (SetDefault zero_Config)"
  by (simp add: Init_def Parse_nil init_env_def load_file_def finish_def Visit_def)

lemma Init_no_arguments_files: "Init [] no_files False = (ReturnNil default_Config, no_files)"
  unfolding Init_def Parse_nil by (simp add: init_eval)

lemma Init_config_port:
  "Init [''--config'', ''config.json'', ''--port'', ''9090''] port_9000_files False =
     (ReturnNil (default_Config\<lparr>Port := 9090\<rparr>), port_9000_files)"
  unfolding Init_def Parse_config_port by (simp add: init_eval port_9000_files_def parse_eval ParseUint_9090)

lemma Init_config_nats:
  "Init [''--config'', ''config.json'', ''--nats'', ''''] nats_files False =
     (ReturnNil default_Config, nats_files)"
  unfolding Init_def Parse_config_nats by (simp add: init_eval nats_files_def parse_eval)

lemma Init_config_headauth:
  "Init [''--config'', ''config.json'', ''--headauth'', ''''] headauth_files False =
     (ReturnNil default_Config, headauth_files)"
  unfolding Init_def Parse_config_headauth by (simp add: init_eval headauth_files_def parse_eval)

lemma Init_config_only:
  "Init [''--config'', ''config.json''] headauth_files False =
     (ReturnNil (default_Config\<lparr>HeaderAuth := Some ''auth.method''\<rparr>), headauth_files)"
  unfolding Init_def Parse_config by (simp add: init_eval headauth_files_def Parse_config)

lemma ParseInt_7: "ParseInt ''7'' = Some 7"
  by (simp add: ParseInt_def ParseUint_def digit_val_def)

lemma ParseBool_true: "ParseBool ''true'' = Some True"
  by (simp add: ParseBool_def)

lemma Parse_every_flag: "Parse init_env every_flag = Some every_flag_env"
  by (simp add: every_flag_def every_flag_env_def parse_eval ParseUint_9090 ParseInt_7
      ParseBool_true zero_Config_def)

lemma Init_every_flag:
  "Init every_flag every_key_files False = (ReturnNil every_flag_Config, every_key_files)"
  unfolding Init_def Parse_every_flag
  by (simp add: every_flag_def every_flag_env_def every_flag_Config_def every_key_files_def
      every_key_def init_eval parse_eval ParseUint_9090 ParseInt_7 ParseBool_true)

lemma Parse_config_port_0:
  "Parse init_env [''--config'', ''config.json'', ''--port'', ''0''] =
     Some (init_env\<lparr>configFile := ''config.json'', actual := [''port'', ''config'']\<rparr>)"
  by (simp add: parse_eval ParseUint_0)

lemma Init_config_port_0:
  "Init [''--config'', ''config.json'', ''--port'', ''0''] port_9000_files False =
     (ReturnNil (default_Config\<lparr>Port := 9000\<rparr>), port_9000_files)"
  unfolding Init_def Parse_config_port_0
  by (simp add: init_eval port_9000_files_def parse_eval ParseUint_0)

lemma Init_every_flag_bootstrap:
  "Init every_flag no_files writable =
     (ReturnNil (every_flag_Config\<lparr>Debug := False\<rparr>),
      if writable then no_files(''config.json'' := Document every_flag_doc) else no_files)"
  unfolding Init_def Parse_every_flag
  by (simp add: every_flag_env_def every_flag_Config_def every_flag_doc_def init_eval)

lemma Init_reqtimeout:
  "Init [''-r'', ''-5''] no_files False =
     (ReturnNil (default_Config\<lparr>RequestTimeout := - 5\<rparr>), no_files)"
  unfolding Init_def Parse_reqtimeout by (simp add: init_eval)

lemma Init_bootstrap:
  assumes "p \<noteq> []" and "fs p = NotExist"
  shows "Init [''--config'', p] fs writable =
    (ReturnNil default_Config,
     if writable then fs(p := Document (MarshalIndent default_Config)) else fs)"
  unfolding Init_def Parse_config_only using assms
  by (simp add: load_file_def finish_eq init_env_def SetDefault_zero SetDefault_idem
      WriteFile_def Let_def)
    (simp add: default_Config_def SetDefault_def server_SetDefault_def)

lemma Init_bootstrapped:
  assumes "p \<noteq> []" and "fs p = Document (MarshalIndent default_Config)"
  shows "Init [''--config'', p] fs writable = (ReturnNil default_Config, fs)"
  unfolding Init_def Parse_config_only using assms
  by (simp add: load_file_def finish_eq init_env_def Unmarshal_defaults Parse_config Let_def)
    (simp add: default_Config_def SetDefault_def server_SetDefault_def)

lemma Init_port_0: "Init (''--port'' # ''0'' # args) fs writable = Init args fs writable"
proof (cases "Parse init_env args")
  case None
  then have "Parse init_env (''--port'' # ''0'' # args) = None"
    unfolding Parse_port_0 by (rule Parse_None_alike)
  with None show ?thesis by (simp add: Init_def)
next
  case (Some e)
  from Parse_more_actual [OF Some, of "[''port'']"] obtain a'
    where "Parse (init_env\<lparr>actual := [''port'']\<rparr>) args = Some (e\<lparr>actual := a'\<rparr>)"
      and a': "set a' = insert ''port'' (set (actual e))"
    by auto
  then have cli': "Parse init_env (''--port'' # ''0'' # args) = Some (e\<lparr>actual := a'\<rparr>)"
    unfolding Parse_port_0 by (simp add: init_env_def)
  from load_file_port_0 [OF Some cli' a', of fs writable] show ?thesis
    unfolding Init_def Some cli'
    by (cases "load_file (''--port'' # ''0'' # args) (e\<lparr>actual := a'\<rparr>) fs writable";
        cases "load_file args e fs writable") (auto split: sum.splits)
qed

section \<open>The claims\<close>

subsection \<open>Command line over file\<close>

text \<open>
  C1, as the spec states it, fails: with \<^verbatim>\<open>--nats ""\<close> on the command line and a file
  that defines the NATS URL, the resolved configuration holds neither the command line's
  value (the empty string) nor the file's, but the built-in default.
\<close>

theorem empty_nats_flag_yields_default:
  "Parse init_env [''--config'', ''config.json'', ''--nats'', ''''] =
     Some (init_env\<lparr>configFile := ''config.json'', actual := [''nats'', ''config'']\<rparr>) \<and>
   NatsURL (cfg (init_env\<lparr>configFile := ''config.json'', actual := [''nats'', ''config'']\<rparr>)) = '''' \<and>
   nats_files ''config.json'' = Document (empty_doc\<lparr>j_natsUrl := Some ''nats://10.0.0.1:4222''\<rparr>) \<and>
   Init [''--config'', ''config.json'', ''--nats'', ''''] nats_files False =
     (ReturnNil default_Config, nats_files) \<and>
   NatsURL default_Config = ''nats://127.0.0.1:4222'' \<and>
   NatsURL default_Config \<noteq> ''''"
  using Parse_config_nats Init_config_nats
  by (simp add: nats_files_def default_Config_def init_env_def zero_Config_def)

text \<open>
  C1 (amended): when the configuration file exists and resolution succeeds, then for a
  field whose flag was given on the command line the resolved configuration holds the
  command line's value for \<^verbatim>\<open>tls\<close>, \<^verbatim>\<open>tlscert\<close> and \<^verbatim>\<open>tlskey\<close>; for the NATS URL, the request
  timeout, the WebSocket path and the API path it holds the command line's value unless
  that is the empty string or 0, and then the built-in default; for \<^verbatim>\<open>headauth\<close> it holds
  the value given, or is absent when that is the empty string. It holds the command
  line's port when that is greater than 0; when the command line's port is 0, given or
  not, the port is the file's, or the default 8080 when the file has no port or port 0.
\<close>

theorem command_line_wins_over_file:
  assumes cli: "Parse init_env args = Some e"
    and doc: "configFile e \<noteq> []" "fs (configFile e) = Document d"
    and ret: "Init args fs writable = (ReturnNil r, fs')"
  shows
    "(''n'' \<in> set (actual e) \<or> ''nats'' \<in> set (actual e) \<longrightarrow>
        NatsURL r = (if NatsURL (cfg e) = [] then ''nats://127.0.0.1:4222'' else NatsURL (cfg e))) \<and>
     (''r'' \<in> set (actual e) \<or> ''reqtimeout'' \<in> set (actual e) \<longrightarrow>
        RequestTimeout r = (if RequestTimeout (cfg e) = 0 then 5 else RequestTimeout (cfg e))) \<and>
     (''w'' \<in> set (actual e) \<or> ''wspath'' \<in> set (actual e) \<longrightarrow>
        WSPath r = (if WSPath (cfg e) = [] then ''/'' else WSPath (cfg e))) \<and>
     (''a'' \<in> set (actual e) \<or> ''apipath'' \<in> set (actual e) \<longrightarrow>
        APIPath r = (if APIPath (cfg e) = [] then ''/api/'' else APIPath (cfg e))) \<and>
     (''tls'' \<in> set (actual e) \<longrightarrow> TLS r = TLS (cfg e)) \<and>
     (''tlscert'' \<in> set (actual e) \<longrightarrow> TLSCert r = TLSCert (cfg e)) \<and>
     (''tlskey'' \<in> set (actual e) \<longrightarrow> TLSKey r = TLSKey (cfg e)) \<and>
     (''u'' \<in> set (actual e) \<or> ''headauth'' \<in> set (actual e) \<longrightarrow>
        HeaderAuth r = (if headauth e = [] then None else Some (headauth e))) \<and>
     (0 < port e \<longrightarrow> unat (Port r) = port e) \<and>
     (port e = 0 \<longrightarrow>
        Port r = (case j_port d of None \<Rightarrow> 8080 | Some n \<Rightarrow> if n = 0 then 8080 else word_of_int n))"
proof -
  from Init_result(5) [OF cli ret doc] obtain c a
    where c: "Unmarshal d (cfg e) = Some c"
      and a: "set a = set (actual e)"
      and r: "r = finish (e\<lparr>cfg := reapplied (actual e) (cfg e) c, actual := a\<rparr>)"
    by blast
  have "port e < 2 ^ 16"
    by (rule Init_result(1) [OF cli ret])
  then have "0 < port e \<Longrightarrow> unat (word_of_nat (port e) :: 16 word) = port e"
    "0 < port e \<Longrightarrow> (word_of_nat (port e) :: 16 word) \<noteq> 0"
    by (simp_all add: unat_of_nat word_of_nat_eq_0_iff dvd_eq_mod_eq_0)
  moreover have "Port c = (case j_port d of None \<Rightarrow> 0 | Some n \<Rightarrow> word_of_int n)"
    using Unmarshal_fields(4) [OF c] Parse_Port [OF cli] by (simp split: option.splits)
  moreover have "(word_of_int n :: 16 word) = 0 \<longleftrightarrow> n = 0" if "j_port d = Some n" for n
    using Unmarshal_port_range [OF c that] by (simp add: port_word_eq_0)
  ultimately show ?thesis
    using a unfolding r finish_eq
    by (simp add: SetDefault_fields reapplied_def split: option.splits)
qed

theorem command_line_wins_over_file_witness:
  "Parse init_env [''--config'', ''config.json'', ''--port'', ''9090''] =
     Some (init_env\<lparr>configFile := ''config.json'', port := 9090, actual := [''port'', ''config'']\<rparr>) \<and>
   port_9000_files ''config.json'' = Document (empty_doc\<lparr>j_port := Some 9000\<rparr>) \<and>
   Init [''--config'', ''config.json'', ''--port'', ''9090''] port_9000_files False =
     (ReturnNil (default_Config\<lparr>Port := 9090\<rparr>), port_9000_files) \<and>
   unat (Port (default_Config\<lparr>Port := 9090\<rparr>)) = 9090 \<and>
   Parse init_env [''--config'', ''config.json'', ''--port'', ''0''] =
     Some (init_env\<lparr>configFile := ''config.json'', actual := [''port'', ''config'']\<rparr>) \<and>
   Init [''--config'', ''config.json'', ''--port'', ''0''] port_9000_files False =
     (ReturnNil (default_Config\<lparr>Port := 9000\<rparr>), port_9000_files) \<and>
   Port (default_Config\<lparr>Port := 9000\<rparr>) = 9000 \<and>
   Parse init_env every_flag = Some every_flag_env \<and>
   every_key_files (configFile every_flag_env) = Document every_key \<and>
   Init every_flag every_key_files False = (ReturnNil every_flag_Config, every_key_files) \<and>
   NatsURL every_flag_Config = ''nats://10.1.1.1:4222'' \<and>
   RequestTimeout every_flag_Config = 7 \<and>
   WSPath every_flag_Config = ''/ws'' \<and>
   APIPath every_flag_Config = ''/v1/'' \<and>
   TLS every_flag_Config = True \<and>
   TLSCert every_flag_Config = ''cert.pem'' \<and>
   TLSKey every_flag_Config = ''key.pem'' \<and>
   HeaderAuth every_flag_Config = Some ''auth.cli'' \<and>
   unat (Port every_flag_Config) = 9090"
proof -
  have doc: "port_9000_files ''config.json'' = Document (empty_doc\<lparr>j_port := Some 9000\<rparr>)"
    by (simp add: port_9000_files_def)
  from command_line_wins_over_file [OF Parse_config_port _ _ Init_config_port,
      of "empty_doc\<lparr>j_port := Some 9000\<rparr>"] doc
  have port: "unat (Port (default_Config\<lparr>Port := 9090\<rparr>)) = 9090"
    by simp
  from command_line_wins_over_file [OF Parse_config_port_0 _ _ Init_config_port_0,
      of "empty_doc\<lparr>j_port := Some 9000\<rparr>"] doc
  have zero: "Port (default_Config\<lparr>Port := 9000\<rparr>) = 9000"
    by (simp add: init_env_def empty_doc_def)
  have every: "every_key_files (configFile every_flag_env) = Document every_key"
    by (simp add: every_key_files_def every_flag_env_def)
  from command_line_wins_over_file [OF Parse_every_flag _ every Init_every_flag]
  have "NatsURL every_flag_Config = ''nats://10.1.1.1:4222'' \<and>
    RequestTimeout every_flag_Config = 7 \<and>
    WSPath every_flag_Config = ''/ws'' \<and>
    APIPath every_flag_Config = ''/v1/'' \<and>
    TLS every_flag_Config = True \<and>
    TLSCert every_flag_Config = ''cert.pem'' \<and>
    TLSKey every_flag_Config = ''key.pem'' \<and>
    HeaderAuth every_flag_Config = Some ''auth.cli'' \<and>
    unat (Port every_flag_Config) = 9090"
    by (simp add: every_flag_env_def)
  with Parse_config_port doc Init_config_port port Parse_config_port_0 Init_config_port_0 zero
    Parse_every_flag every Init_every_flag
  show ?thesis by simp
qed

subsection \<open>The header authentication method\<close>

text \<open>
  C2: \<^verbatim>\<open>headerAuth\<close> is tri-state. When neither \<^verbatim>\<open>-u\<close> nor \<^verbatim>\<open>--headauth\<close> was set, the
  resolved value is what the configuration file gives (absent without a file or a key);
  when the flag was set to a non-empty string, it is that string; when it was set to the
  empty string, it is absent, whatever the file defines.
\<close>

theorem headerAuth_tri_state:
  assumes cli: "Parse init_env args = Some e"
    and ret: "Init args fs writable = (ReturnNil r, fs')"
  shows "HeaderAuth r =
     (if ''u'' \<in> set (actual e) \<or> ''headauth'' \<in> set (actual e)
      then (if headauth e = [] then None else Some (headauth e))
      else file_HeaderAuth fs (configFile e))"
proof (cases "configFile e = []")
  case True
  with Init_result(3) [OF cli ret] Parse_HeaderAuth [OF cli] show ?thesis
    by (simp add: finish_eq SetDefault_fields file_HeaderAuth_def)
next
  case False
  note res = Init_result(4-6) [OF cli ret False]
  show ?thesis
  proof (cases "fs (configFile e)")
    case NotExist
    with res(1) False Parse_HeaderAuth [OF cli] show ?thesis
      by (simp add: finish_eq SetDefault_fields file_HeaderAuth_def)
  next
    case Unreadable
    with res(3) show ?thesis by simp
  next
    case Malformed
    with res(3) show ?thesis by simp
  next
    case (Document d)
    from res(2) [OF Document] obtain c a where c: "Unmarshal d (cfg e) = Some c"
      and a: "set a = set (actual e)"
      and r: "r = finish (e\<lparr>cfg := reapplied (actual e) (cfg e) c, actual := a\<rparr>)"
      by blast
    from c have "HeaderAuth c = (case j_headerAuth d of None \<Rightarrow> None | Some h \<Rightarrow> h)"
      using Parse_HeaderAuth [OF cli] by (simp add: Unmarshal_fields split: option.splits)
    with a False Document show ?thesis
      unfolding r finish_eq by (simp add: SetDefault_fields reapplied_def file_HeaderAuth_def)
  qed
qed

theorem headerAuth_tri_state_witness:
  "Parse init_env [''--config'', ''config.json'', ''--headauth'', ''''] =
     Some (init_env\<lparr>configFile := ''config.json'', actual := [''headauth'', ''config'']\<rparr>) \<and>
   file_HeaderAuth headauth_files ''config.json'' = Some ''auth.method'' \<and>
   Init [''--config'', ''config.json'', ''--headauth'', ''''] headauth_files False =
     (ReturnNil default_Config, headauth_files) \<and>
   HeaderAuth default_Config = None \<and>
   Parse init_env [''--config'', ''config.json''] =
     Some (init_env\<lparr>configFile := ''config.json'', actual := [''config'']\<rparr>) \<and>
   Init [''--config'', ''config.json''] headauth_files False =
     (ReturnNil (default_Config\<lparr>HeaderAuth := Some ''auth.method''\<rparr>), headauth_files) \<and>
   HeaderAuth (default_Config\<lparr>HeaderAuth := Some ''auth.method''\<rparr>) = Some ''auth.method'' \<and>
   Parse init_env every_flag = Some every_flag_env \<and>
   Init every_flag every_key_files False = (ReturnNil every_flag_Config, every_key_files) \<and>
   HeaderAuth every_flag_Config = Some ''auth.cli''"
proof -
  have "file_HeaderAuth headauth_files ''config.json'' = Some ''auth.method''"
    by (simp add: file_HeaderAuth_def headauth_files_def)
  moreover from headerAuth_tri_state [OF Parse_config_headauth Init_config_headauth]
  have "HeaderAuth default_Config = None"
    by (simp add: init_env_def)
  moreover from headerAuth_tri_state [OF Parse_config_only Init_config_only] calculation
  have "HeaderAuth (default_Config\<lparr>HeaderAuth := Some ''auth.method''\<rparr>) = Some ''auth.method''"
    by (simp add: init_env_def)
  moreover from headerAuth_tri_state [OF Parse_every_flag Init_every_flag]
  have "HeaderAuth every_flag_Config = Some ''auth.cli''"
    by (simp add: every_flag_env_def)
  ultimately show ?thesis
    using Parse_config_headauth Init_config_headauth Parse_config_only Init_config_only
      Parse_every_flag Init_every_flag
    by simp
qed

subsection \<open>The port check\<close>

text \<open>
  C3, as the spec states it, fails: \<^verbatim>\<open>--port 70000\<close> is reported with the usage text
  after the message (\<^verbatim>\<open>printAndDie\<close> is called with \<^verbatim>\<open>showUsage = true\<close>), not with the
  message alone.
\<close>

theorem invalid_port_shows_usage:
  "main [''--port'', ''70000''] no_files False signalled_world =
     ([Print Stderr (Msg (InvalidPort 70000)), Print Stderr UsageStr], Exit 1)"
  by (simp add: main_def Init_def Parse_port_70000 printAndDie_def)

text \<open>
  C3 (amended): a port out of range fails resolution at the layer that supplies it. When
  the arguments parse and the command line's port is 65536 or more, \<^verbatim>\<open>Init\<close> ends the
  process right after the arguments are parsed, before the configuration file is looked
  at (the files are as they were): the process prints the invalid-port message followed
  by the usage text and exits with status 1. When the command line passes that check and
  the configuration file gives a port below 0 or above 65535, the decoder rejects the
  file: \<^verbatim>\<open>Init\<close> returns the error \<^verbatim>\<open>error parsing config file\<close>, and the process prints
  that message alone, without the usage text, and exits with status 1.
\<close>

theorem port_out_of_range_fails:
  assumes "Parse init_env args = Some e"
  shows "(2 ^ 16 \<le> port e \<longrightarrow>
      Init args fs writable = (PrintAndDie (InvalidPort (port e)) True, fs) \<and>
      main args fs writable w =
        ([Print Stderr (Msg (InvalidPort (port e))), Print Stderr UsageStr], Exit 1)) \<and>
    (port e < 2 ^ 16 \<and> \<not> showHelp e \<and> configFile e \<noteq> [] \<and>
     fs (configFile e) = Document d \<and> j_port d = Some n \<and> (n < 0 \<or> 65535 < n) \<longrightarrow>
      Init args fs writable = (ReturnErr ErrorParsingConfigFile, fs) \<and>
      main args fs writable w = ([Print Stderr (Msg ErrorParsingConfigFile)], Exit 1))"
proof (intro conjI impI)
  assume "2 ^ 16 \<le> port e"
  with assms show "Init args fs writable = (PrintAndDie (InvalidPort (port e)) True, fs)"
    and "main args fs writable w =
        ([Print Stderr (Msg (InvalidPort (port e))), Print Stderr UsageStr], Exit 1)"
    by (simp_all add: main_def Init_def printAndDie_def)
next
  assume bad: "port e < 2 ^ 16 \<and> \<not> showHelp e \<and> configFile e \<noteq> [] \<and>
     fs (configFile e) = Document d \<and> j_port d = Some n \<and> (n < 0 \<or> 65535 < n)"
  then have "Unmarshal d (cfg e) = None"
    by (simp add: Unmarshal_port_error)
  with assms bad show init: "Init args fs writable = (ReturnErr ErrorParsingConfigFile, fs)"
    by (simp add: Init_parsed load_file_errors)
  then show "main args fs writable w = ([Print Stderr (Msg ErrorParsingConfigFile)], Exit 1)"
    by (simp add: main_def printAndDie_def)
qed

theorem port_out_of_range_fails_witness:
  "Parse init_env [''--port'', ''70000''] = Some (init_env\<lparr>port := 70000, actual := [''port'']\<rparr>) \<and>
   Init [''--port'', ''70000''] no_files True = (PrintAndDie (InvalidPort 70000) True, no_files) \<and>
   main [''--port'', ''70000''] no_files True signalled_world =
      ([Print Stderr (Msg (InvalidPort 70000)), Print Stderr UsageStr], Exit 1) \<and>
   Parse init_env [''--config'', ''config.json''] =
     Some (init_env\<lparr>configFile := ''config.json'', actual := [''config'']\<rparr>) \<and>
   port_70000_files ''config.json'' = Document (empty_doc\<lparr>j_port := Some 70000\<rparr>) \<and>
   Init [''--config'', ''config.json''] port_70000_files True =
     (ReturnErr ErrorParsingConfigFile, port_70000_files) \<and>
   main [''--config'', ''config.json''] port_70000_files True signalled_world =
     ([Print Stderr (Msg ErrorParsingConfigFile)], Exit 1)"
proof -
  have doc: "port_70000_files ''config.json'' = Document (empty_doc\<lparr>j_port := Some 70000\<rparr>)"
    by (simp add: port_70000_files_def)
  from port_out_of_range_fails [OF Parse_port_70000, where fs = no_files and writable = True
      and w = signalled_world]
  have "Init [''--port'', ''70000''] no_files True = (PrintAndDie (InvalidPort 70000) True, no_files) \<and>
    main [''--port'', ''70000''] no_files True signalled_world =
      ([Print Stderr (Msg (InvalidPort 70000)), Print Stderr UsageStr], Exit 1)"
    by (simp add: init_env_def)
  moreover
  from port_out_of_range_fails [OF Parse_config_only [of "''config.json''"], where
      fs = port_70000_files and d = "empty_doc\<lparr>j_port := Some 70000\<rparr>" and n = 70000
      and writable = True and w = signalled_world] doc
  have "Init [''--config'', ''config.json''] port_70000_files True =
     (ReturnErr ErrorParsingConfigFile, port_70000_files) \<and>
   main [''--config'', ''config.json''] port_70000_files True signalled_world =
     ([Print Stderr (Msg ErrorParsingConfigFile)], Exit 1)"
    by (simp add: init_env_def)
  ultimately show ?thesis
    using Parse_port_70000 Parse_config_only doc by simp
qed

subsection \<open>The stop timeout\<close>

text \<open>
  C4: once shutdown has been initiated (an OS signal, or a \<^verbatim>\<open>nil\<close> on the stop channel)
  and \<^verbatim>\<open>serv.Stop\<close> does not return within \<^verbatim>\<open>stopTimeout\<close>, the process ends with the
  panic \<^verbatim>\<open>Shutdown timed out\<close> after having waited exactly \<^verbatim>\<open>stopTimeout\<close>; and in no
  run at all does it wait longer than \<^verbatim>\<open>stopTimeout\<close> for the stop.
\<close>

theorem shutdown_timeout_panics:
  assumes "fst (Init args fs writable) = ReturnNil c"
    and "start_error w = None"
    and "received w = Some OsSignal \<or> received w = Some (StopChannel None)"
    and "stop_time w = None \<or> (\<exists>d. stop_time w = Some d \<and> stopTimeout < d)"
  shows "main args fs writable w =
      ([ServStart, ServStop, Blocked stopTimeout], Panic ''Shutdown timed out'') \<and>
    (\<forall>w' n. Blocked n \<in> set (fst (main args fs writable w')) \<longrightarrow> n \<le> stopTimeout)"
proof
  from assms show "main args fs writable w =
      ([ServStart, ServStop, Blocked stopTimeout], Panic ''Shutdown timed out'')"
    by (auto simp: main_def serve_def await_stop_def preceded_def)
  show "\<forall>w' n. Blocked n \<in> set (fst (main args fs writable w')) \<longrightarrow> n \<le> stopTimeout"
    using assms(1)
    by (auto simp: main_def serve_def await_stop_def preceded_def printAndDie_def
        split: option.splits trigger.splits if_splits)
qed

theorem shutdown_timeout_panics_witness:
  "fst (Init [] no_files False) = ReturnNil (SetDefault zero_Config) \<and>
   main [] no_files False signalled_world =
      ([ServStart, ServStop, Blocked stopTimeout], Panic ''Shutdown timed out'') \<and>
   main [] no_files False prompt_world = ([ServStart, ServStop, Blocked 5000000000], Exit 0) \<and>
   5000000000 \<le> stopTimeout"
proof -
  note inst = shutdown_timeout_panics [OF Init_no_arguments, of signalled_world]
  have prompt:
    "main [] no_files False prompt_world = ([ServStart, ServStop, Blocked 5000000000], Exit 0)"
    by (simp add: main_def Init_no_arguments prompt_world_def serve_def await_stop_def
        preceded_def stopTimeout_def)
  from inst have "Blocked 5000000000 \<in> set (fst (main [] no_files False prompt_world)) \<longrightarrow>
      5000000000 \<le> stopTimeout"
    by (simp add: signalled_world_def)
  with prompt have "5000000000 \<le> stopTimeout"
    by simp
  with inst prompt Init_no_arguments show ?thesis
    by (simp add: signalled_world_def)
qed

subsection \<open>The service's stop channel\<close>



subsection \<open>The resolved configuration\<close>

text \<open>
  C6, as the spec states it, fails: \<^verbatim>\<open>-r -5\<close> resolves to a request timeout of -5, which
  is not zero, so that \<^verbatim>\<open>SetDefault\<close> leaves it, and not positive.
\<close>

theorem negative_timeout_is_kept:
  "Init [''-r'', ''-5''] no_files False =
     (ReturnNil (default_Config\<lparr>RequestTimeout := - 5\<rparr>), no_files) \<and>
   \<not> 0 < RequestTimeout (default_Config\<lparr>RequestTimeout := - 5\<rparr>)"
  using Init_reqtimeout by simp

text \<open>
  C6 (amended): whenever resolution succeeds, the NATS URL, the WebSocket path and the API
  path are not empty, the request timeout is not 0 (it may be negative), and the port
  lies in 1..65535.
\<close>

theorem resolved_fields_defaulted:
  assumes "Init args fs writable = (ReturnNil r, fs')"
  shows "NatsURL r \<noteq> [] \<and> RequestTimeout r \<noteq> 0 \<and> WSPath r \<noteq> [] \<and> APIPath r \<noteq> [] \<and>
    1 \<le> unat (Port r) \<and> unat (Port r) \<le> 65535"
proof -
  from assms obtain e' where r: "r = finish e'"
    by (rule Init_ReturnNil_finish)
  have "Port r \<noteq> 0"
    unfolding r finish_eq by (simp add: SetDefault_fields)
  then have "1 \<le> unat (Port r) \<and> unat (Port r) \<le> 65535"
    by (rule Port_in_range)
  moreover have "NatsURL r \<noteq> [] \<and> RequestTimeout r \<noteq> 0 \<and> WSPath r \<noteq> [] \<and> APIPath r \<noteq> []"
    unfolding r finish_eq by (simp add: SetDefault_fields)
  ultimately show ?thesis by simp
qed

theorem resolved_fields_defaulted_witness:
  "Init [] no_files False = (ReturnNil default_Config, no_files) \<and>
   NatsURL default_Config \<noteq> [] \<and> RequestTimeout default_Config \<noteq> 0 \<and>
   WSPath default_Config \<noteq> [] \<and> APIPath default_Config \<noteq> [] \<and>
   1 \<le> unat (Port default_Config) \<and> unat (Port default_Config) \<le> 65535"
  using resolved_fields_defaulted [OF Init_no_arguments_files] Init_no_arguments_files
  by simp

subsection \<open>The bootstrap file\<close>

text \<open>
  C7: when a configuration file path is given and there is no file at it, \<^verbatim>\<open>Init\<close> fills
  the unset fields with the defaults, encodes the configuration and writes it to the
  path: the file holds, key by key, the command line's value where that is not the zero
  value and the built-in default otherwise (the port is the default 8080, since the
  command line's port is copied later; \<^verbatim>\<open>headerAuth\<close> is \<^verbatim>\<open>null\<close>; \<^verbatim>\<open>debug\<close> is left out).
  \<^verbatim>\<open>Init\<close> returns the same configuration, the one given field by field below, whether
  the write has gone through or not. No other error is tolerated: whenever \<^verbatim>\<open>Init\<close>
  returns a configuration, the arguments have parsed, the port is below 65536, and a
  configuration file that was named is neither unreadable nor rejected by the decoder.
\<close>

theorem bootstrap_write_is_best_effort:
  assumes "Parse init_env args = Some e" and "port e < 2 ^ 16" and "\<not> showHelp e"
    and "configFile e \<noteq> []" and "fs (configFile e) = NotExist"
  shows "(\<exists>r d. Init args fs True = (ReturnNil r, fs(configFile e := Document d)) \<and>
      Init args fs False = (ReturnNil r, fs) \<and>
      d = \<lparr>j_natsUrl =
             Some (if NatsURL (cfg e) = [] then ''nats://127.0.0.1:4222'' else NatsURL (cfg e)),
           j_requestTimeout =
             Some (if RequestTimeout (cfg e) = 0 then 5 else RequestTimeout (cfg e)),
           j_debug = None,
           j_port = Some 8080,
           j_wsPath = Some (if WSPath (cfg e) = [] then ''/'' else WSPath (cfg e)),
           j_apiPath = Some (if APIPath (cfg e) = [] then ''/api/'' else APIPath (cfg e)),
           j_headerAuth = Some None,
           j_tls = Some (TLS (cfg e)),
           j_tlsCert = Some (TLSCert (cfg e)),
           j_tlsKey = Some (TLSKey (cfg e))\<rparr> \<and>
      r = \<lparr>Port = (if 0 < port e then word_of_nat (port e) else 8080),
           WSPath = (if WSPath (cfg e) = [] then ''/'' else WSPath (cfg e)),
           APIPath = (if APIPath (cfg e) = [] then ''/api/'' else APIPath (cfg e)),
           HeaderAuth =
             (if ''u'' \<in> set (actual e) \<or> ''headauth'' \<in> set (actual e)
              then (if headauth e = [] then None else Some (headauth e)) else None),
           TLS = TLS (cfg e),
           TLSCert = TLSCert (cfg e),
           TLSKey = TLSKey (cfg e),
           NatsURL = (if NatsURL (cfg e) = [] then ''nats://127.0.0.1:4222'' else NatsURL (cfg e)),
           RequestTimeout = (if RequestTimeout (cfg e) = 0 then 5 else RequestTimeout (cfg e)),
           Debug = False\<rparr>) \<and>
    (\<forall>args' fs' w r' fs''. Init args' fs' w = (ReturnNil r', fs'') \<longrightarrow>
      (\<exists>e'. Parse init_env args' = Some e' \<and> port e' < 2 ^ 16 \<and>
        (configFile e' \<noteq> [] \<longrightarrow>
          fs' (configFile e') \<noteq> Unreadable \<and> fs' (configFile e') \<noteq> Malformed \<and>
          (\<forall>d. fs' (configFile e') = Document d \<longrightarrow> Unmarshal d (cfg e') \<noteq> None))))"
proof (intro conjI allI impI)
  note frame = Parse_Port [OF assms(1)] Parse_HeaderAuth [OF assms(1)] Parse_Debug [OF assms(1)]
  let ?d = "MarshalIndent (SetDefault (cfg e))"
  let ?r = "finish (e\<lparr>cfg := SetDefault (cfg e)\<rparr>)"
  have nonzero: "0 < port e \<Longrightarrow> (word_of_nat (port e) :: 16 word) \<noteq> 0"
    using assms(2) by (simp add: word_of_nat_eq_0_iff dvd_eq_mod_eq_0)
  have d: "?d = \<lparr>j_natsUrl =
             Some (if NatsURL (cfg e) = [] then ''nats://127.0.0.1:4222'' else NatsURL (cfg e)),
           j_requestTimeout =
             Some (if RequestTimeout (cfg e) = 0 then 5 else RequestTimeout (cfg e)),
           j_debug = None,
           j_port = Some 8080,
           j_wsPath = Some (if WSPath (cfg e) = [] then ''/'' else WSPath (cfg e)),
           j_apiPath = Some (if APIPath (cfg e) = [] then ''/api/'' else APIPath (cfg e)),
           j_headerAuth = Some None,
           j_tls = Some (TLS (cfg e)),
           j_tlsCert = Some (TLSCert (cfg e)),
           j_tlsKey = Some (TLSKey (cfg e))\<rparr>"
    using frame by (simp add: MarshalIndent_def SetDefault_fields)
  have r: "?r = \<lparr>Port = (if 0 < port e then word_of_nat (port e) else 8080),
           WSPath = (if WSPath (cfg e) = [] then ''/'' else WSPath (cfg e)),
           APIPath = (if APIPath (cfg e) = [] then ''/api/'' else APIPath (cfg e)),
           HeaderAuth =
             (if ''u'' \<in> set (actual e) \<or> ''headauth'' \<in> set (actual e)
              then (if headauth e = [] then None else Some (headauth e)) else None),
           TLS = TLS (cfg e),
           TLSCert = TLSCert (cfg e),
           TLSKey = TLSKey (cfg e),
           NatsURL = (if NatsURL (cfg e) = [] then ''nats://127.0.0.1:4222'' else NatsURL (cfg e)),
           RequestTimeout = (if RequestTimeout (cfg e) = 0 then 5 else RequestTimeout (cfg e)),
           Debug = False\<rparr>"
    using frame nonzero
    by (intro Config.equality) (simp_all add: finish_eq SetDefault_fields)
  from assms have "Init args fs True = (ReturnNil ?r, fs(configFile e := Document ?d))"
    and "Init args fs False = (ReturnNil ?r, fs)"
    by (simp_all add: Init_parsed load_file_NotExist WriteFile_def)
  with d r show "\<exists>r d. Init args fs True = (ReturnNil r, fs(configFile e := Document d)) \<and>
      Init args fs False = (ReturnNil r, fs) \<and>
      d = \<lparr>j_natsUrl =
             Some (if NatsURL (cfg e) = [] then ''nats://127.0.0.1:4222'' else NatsURL (cfg e)),
           j_requestTimeout =
             Some (if RequestTimeout (cfg e) = 0 then 5 else RequestTimeout (cfg e)),
           j_debug = None,
           j_port = Some 8080,
           j_wsPath = Some (if WSPath (cfg e) = [] then ''/'' else WSPath (cfg e)),
           j_apiPath = Some (if APIPath (cfg e) = [] then ''/api/'' else APIPath (cfg e)),
           j_headerAuth = Some None,
           j_tls = Some (TLS (cfg e)),
           j_tlsCert = Some (TLSCert (cfg e)),
           j_tlsKey = Some (TLSKey (cfg e))\<rparr> \<and>
      r = \<lparr>Port = (if 0 < port e then word_of_nat (port e) else 8080),
           WSPath = (if WSPath (cfg e) = [] then ''/'' else WSPath (cfg e)),
           APIPath = (if APIPath (cfg e) = [] then ''/api/'' else APIPath (cfg e)),
           HeaderAuth =
             (if ''u'' \<in> set (actual e) \<or> ''headauth'' \<in> set (actual e)
              then (if headauth e = [] then None else Some (headauth e)) else None),
           TLS = TLS (cfg e),
           TLSCert = TLSCert (cfg e),
           TLSKey = TLSKey (cfg e),
           NatsURL = (if NatsURL (cfg e) = [] then ''nats://127.0.0.1:4222'' else NatsURL (cfg e)),
           RequestTimeout = (if RequestTimeout (cfg e) = 0 then 5 else RequestTimeout (cfg e)),
           Debug = False\<rparr>"
    by metis
next
  fix args' fs' w r' fs''
  assume ret: "Init args' fs' w = (ReturnNil r', fs'')"
  then obtain e' where cli: "Parse init_env args' = Some e'"
    by (rule Init_ReturnNil)
  note res = Init_result [OF cli ret]
  have "Unmarshal d (cfg e') \<noteq> None" if "configFile e' \<noteq> []" "fs' (configFile e') = Document d" for d
    using res(5) [OF that] by auto
  with cli res(1) res(6) show "\<exists>e'. Parse init_env args' = Some e' \<and> port e' < 2 ^ 16 \<and>
        (configFile e' \<noteq> [] \<longrightarrow>
          fs' (configFile e') \<noteq> Unreadable \<and> fs' (configFile e') \<noteq> Malformed \<and>
          (\<forall>d. fs' (configFile e') = Document d \<longrightarrow> Unmarshal d (cfg e') \<noteq> None))"
    by blast
qed

theorem bootstrap_write_is_best_effort_witness:
  "Parse init_env every_flag = Some every_flag_env \<and>
   no_files (configFile every_flag_env) = NotExist \<and>
   Init every_flag no_files True =
     (ReturnNil (every_flag_Config\<lparr>Debug := False\<rparr>),
      no_files(''config.json'' := Document every_flag_doc)) \<and>
   Init every_flag no_files False = (ReturnNil (every_flag_Config\<lparr>Debug := False\<rparr>), no_files) \<and>
   (\<exists>e'. Parse init_env every_flag = Some e' \<and> port e' < 2 ^ 16)"
proof -
  have e: "port every_flag_env < 2 ^ 16" "\<not> showHelp every_flag_env"
    "configFile every_flag_env = ''config.json''" "no_files (configFile every_flag_env) = NotExist"
    by (simp_all add: every_flag_env_def no_files_def)
  note inst = bootstrap_write_is_best_effort [where fs = no_files, OF Parse_every_flag e(1,2) _ e(4)]
  from inst e(3)
  have "Init every_flag no_files True =
     (ReturnNil (every_flag_Config\<lparr>Debug := False\<rparr>),
      no_files(''config.json'' := Document every_flag_doc)) \<and>
    Init every_flag no_files False = (ReturnNil (every_flag_Config\<lparr>Debug := False\<rparr>), no_files)"
    by (simp add: every_flag_env_def every_flag_Config_def every_flag_doc_def)
  moreover from inst e(3) Init_every_flag_bootstrap [of False]
  have "\<exists>e'. Parse init_env every_flag = Some e' \<and> port e' < 2 ^ 16"
    by simp blast
  ultimately show ?thesis
    using Parse_every_flag e(4) by simp
qed

subsection \<open>Reading the bootstrap file back\<close>

text \<open>
  C8, as the spec states it, fails: when the write of the bootstrap file does not go
  through, resolution succeeds all the same and no file exists at the path afterwards.
\<close>

theorem failed_write_leaves_no_file:
  "Init [''--config'', ''newfile.json''] no_files False = (ReturnNil default_Config, no_files) \<and>
   no_files ''newfile.json'' = NotExist"
  using Init_bootstrap [of "''newfile.json''" no_files False] by (simp add: no_files_def)

text \<open>
  C8 (amended): when \<^verbatim>\<open>--config\<close> points at a missing path, there are no other
  arguments, and the write of the bootstrap file goes through, the path afterwards holds
  the encoding of the resolved configuration, and resolving again with the same
  arguments and that file present returns the same configuration (and leaves the file
  as it is).
\<close>

theorem bootstrap_round_trip:
  assumes "p \<noteq> []" and "fs p = NotExist"
    and "Init [''--config'', p] fs True = (ReturnNil r, fs')"
  shows "fs' p = Document (MarshalIndent r) \<and>
    (\<forall>writable. Init [''--config'', p] fs' writable = (ReturnNil r, fs'))"
proof -
  from assms have "r = default_Config" and "fs' = fs(p := Document (MarshalIndent default_Config))"
    by (simp_all add: Init_bootstrap)
  with assms(1) show ?thesis
    by (simp add: Init_bootstrapped)
qed

theorem bootstrap_round_trip_witness:
  "no_files ''newfile.json'' = NotExist \<and>
   Init [''--config'', ''newfile.json''] no_files True =
     (ReturnNil default_Config, no_files(''newfile.json'' := Document (MarshalIndent default_Config))) \<and>
   Init [''--config'', ''newfile.json'']
       (no_files(''newfile.json'' := Document (MarshalIndent default_Config))) False =
     (ReturnNil default_Config, no_files(''newfile.json'' := Document (MarshalIndent default_Config)))"
proof -
  have missing: "no_files ''newfile.json'' = NotExist"
    by (simp add: no_files_def)
  have first: "Init [''--config'', ''newfile.json''] no_files True =
     (ReturnNil default_Config, no_files(''newfile.json'' := Document (MarshalIndent default_Config)))"
    using Init_bootstrap [of "''newfile.json''" no_files True] missing by simp
  from bootstrap_round_trip [of "''newfile.json''" no_files, OF _ missing first] missing first
  show ?thesis
    by simp
qed

subsection \<open>Port 0\<close>

text \<open>
  C9: \<^verbatim>\<open>--port 0\<close> in front of any argument list changes nothing: \<^verbatim>\<open>Init\<close> ends the same
  way, with the same configuration and the same files, as without it. And when the port
  variable is 0 after parsing and no file supplies a port (no path given, no file at the
  path, or a document with no port or port 0), the resolved port is the default, 8080.
\<close>

theorem port_zero_is_unset:
  "Init (''--port'' # ''0'' # args) fs writable = Init args fs writable \<and>
   (\<forall>e r fs'. Parse init_env (''--port'' # ''0'' # args) = Some e \<and> port e = 0 \<and>
      Init (''--port'' # ''0'' # args) fs writable = (ReturnNil r, fs') \<and>
      (configFile e = [] \<or> fs (configFile e) = NotExist \<or>
       (\<exists>d. fs (configFile e) = Document d \<and> (j_port d = None \<or> j_port d = Some 0))) \<longrightarrow>
      Port r = 8080)"
  using Init_port_0 default_port by blast

theorem port_zero_is_unset_witness:
  "Init [''--port'', ''0''] no_files False = Init [] no_files False \<and>
   Parse init_env [''--port'', ''0''] = Some (init_env\<lparr>actual := [''port'']\<rparr>) \<and>
   Init [''--port'', ''0''] no_files False = (ReturnNil default_Config, no_files) \<and>
   Port default_Config = 8080"
proof -
  have cli: "Parse init_env [''--port'', ''0''] = Some (init_env\<lparr>actual := [''port'']\<rparr>)"
    unfolding Parse_port_0 by (simp add: Parse_nil init_env_def)
  note inst = port_zero_is_unset [of "[]" no_files False]
  from inst have same: "Init [''--port'', ''0''] no_files False = Init [] no_files False"
    by simp
  with Init_no_arguments_files
  have ret: "Init [''--port'', ''0''] no_files False = (ReturnNil default_Config, no_files)"
    by simp
  from inst cli ret have "Port default_Config = 8080"
    by (simp add: init_env_def)
  with same cli ret show ?thesis by simp
qed

subsection \<open>The bootstrap file and the port\<close>

text \<open>
  C10: the bootstrap file does not depend on \<^verbatim>\<open>--port\<close>. When the command line gives a
  port between 1 and 65535 and a configuration path with no file at it, and the write
  goes through, the file written is the encoding of the configuration as defaulted
  before the port is copied into it: it holds the default port, 8080, while the
  configuration that \<^verbatim>\<open>Init\<close> returns holds the port of the command line.
\<close>

theorem bootstrap_file_ignores_port:
  assumes "Parse init_env args = Some e" and "0 < port e" and "port e < 2 ^ 16"
    and "\<not> showHelp e" and "configFile e \<noteq> []" and "fs (configFile e) = NotExist"
  shows "\<exists>r. Init args fs True =
      (ReturnNil r, fs(configFile e := Document (MarshalIndent (SetDefault (cfg e))))) \<and>
    j_port (MarshalIndent (SetDefault (cfg e))) = Some 8080 \<and> unat (Port r) = port e"
proof -
  have "Port (cfg e) = 0"
    by (rule Parse_Port [OF assms(1)])
  then have "j_port (MarshalIndent (SetDefault (cfg e))) = Some 8080"
    by (simp add: MarshalIndent_def SetDefault_fields)
  moreover have "unat (Port (finish (e\<lparr>cfg := SetDefault (cfg e)\<rparr>))) = port e"
    using assms(2,3)
    by (simp add: finish_eq SetDefault_fields unat_of_nat word_of_nat_eq_0_iff dvd_eq_mod_eq_0)
  ultimately show ?thesis
    using assms by (simp add: Init_parsed load_file_NotExist WriteFile_def)
qed

theorem bootstrap_file_ignores_port_witness:
  "Parse init_env [''--config'', ''config.json'', ''--port'', ''9090''] =
     Some (init_env\<lparr>configFile := ''config.json'', port := 9090, actual := [''port'', ''config'']\<rparr>) \<and>
   no_files ''config.json'' = NotExist \<and>
   Init [''--config'', ''config.json'', ''--port'', ''9090''] no_files True =
     (ReturnNil (default_Config\<lparr>Port := 9090\<rparr>),
      no_files(''config.json'' := Document (MarshalIndent default_Config))) \<and>
   j_port (MarshalIndent default_Config) = Some 8080 \<and>
   unat (Port (default_Config\<lparr>Port := 9090\<rparr>)) = 9090"
proof -
  have ret: "Init [''--config'', ''config.json'', ''--port'', ''9090''] no_files True =
     (ReturnNil (default_Config\<lparr>Port := 9090\<rparr>),
      no_files(''config.json'' := Document (MarshalIndent default_Config)))"
    unfolding Init_def Parse_config_port by (simp add: init_eval)
  from bootstrap_file_ignores_port [OF Parse_config_port, of no_files] ret
  have "j_port (MarshalIndent default_Config) = Some 8080 \<and>
      unat (Port (default_Config\<lparr>Port := 9090\<rparr>)) = 9090"
    by (simp add: init_env_def no_files_def SetDefault_zero)
  with ret Parse_config_port show ?thesis
    by (simp add: no_files_def)
qed

end
